theory Spec2Isabelle
  imports Main "HOL-Library.Word" "HOL-Library.Monad_Syntax" "HOL-Library.Code_Target_Numeral"
begin

unbundle bit_operations_syntax

section \<open>Bytes and little-endian scalars\<close>

text \<open>
  \<^verbatim>\<open>unsigned char\<close> is an 8-bit word. A scalar is a byte string read as a
  little-endian natural number; \<open>le_bytes n x\<close> writes the \<open>n\<close> low bytes of \<open>x\<close>.
\<close>

type_synonym byte = "8 word"

fun le_int :: "byte list \<Rightarrow> nat" where
  "le_int [] = 0"
| "le_int (b # bs) = unat b + 256 * le_int bs"

fun le_bytes :: "nat \<Rightarrow> nat \<Rightarrow> byte list" where
  "le_bytes 0 x = []"
| "le_bytes (Suc n) x = of_nat (x mod 256) # le_bytes n (x div 256)"


section \<open>Memory\<close>

text \<open>
  A local array is a byte list of its declared size. An access at offset \<open>off\<close> of
  \<open>n\<close> bytes is checked against that size: outside it the C program has no defined
  behaviour, and the model returns \<open>None\<close>.
\<close>

definition load :: "byte list \<Rightarrow> nat \<Rightarrow> nat \<Rightarrow> byte list option" where
  "load buf off n = (if off + n \<le> length buf then Some (take n (drop off buf)) else None)"

definition store :: "byte list \<Rightarrow> nat \<Rightarrow> byte list \<Rightarrow> byte list option" where
  "store buf off bs =
     (if off + length bs \<le> length buf
      then Some (take off buf @ bs @ drop (off + length bs) buf) else None)"

definition and_at :: "byte list \<Rightarrow> nat \<Rightarrow> byte \<Rightarrow> byte list option" where
  "and_at buf i v = (if i < length buf then Some (buf[i := buf ! i AND v]) else None)"

definition or_at :: "byte list \<Rightarrow> nat \<Rightarrow> byte \<Rightarrow> byte list option" where
  "or_at buf i v = (if i < length buf then Some (buf[i := buf ! i OR v]) else None)"

text \<open>
  The caller's memory is a store from addresses to bytes; an address that holds no byte
  is not allocated. The pointers \<open>sm\<close>, \<open>m\<close> and \<open>pw\<close> are addresses into this
  one store, so the regions they name may overlap.
\<close>

type_synonym addr = nat
type_synonym heap = "addr \<Rightarrow> byte option"

definition allocated :: "heap \<Rightarrow> addr \<Rightarrow> nat \<Rightarrow> bool" where
  "allocated h p n = list_all (\<lambda>a. h a \<noteq> None) [p..<p + n]"

definition heap_load :: "heap \<Rightarrow> addr \<Rightarrow> nat \<Rightarrow> byte list option" where
  "heap_load h p n =
     (if allocated h p n then Some (map (\<lambda>a. the (h a)) [p..<p + n]) else None)"

definition heap_write :: "heap \<Rightarrow> addr \<Rightarrow> byte list \<Rightarrow> heap" where
  "heap_write h p bs = (\<lambda>a. if p \<le> a \<and> a < p + length bs then Some (bs ! (a - p)) else h a)"

definition heap_store :: "heap \<Rightarrow> addr \<Rightarrow> byte list \<Rightarrow> heap option" where
  "heap_store h p bs = (if allocated h p (length bs) then Some (heap_write h p bs) else None)"


section \<open>Collaborators\<close>

text \<open>
  \<^verbatim>\<open>sha512.h\<close> and \<^verbatim>\<open>ge.h\<close> are not among the sources. The hash, the
  multiplication of the basepoint by a 32-byte scalar and the encoding of a point are
  parameters of the model; \<open>'pt\<close> is the type \<^verbatim>\<open>ge_p3\<close> of curve points. As
  parameters they are functions: each returns, and returns the same result for the same
  input bytes.
\<close>

record 'pt prims =
  sha512 :: "byte list \<Rightarrow> byte list"
  ge_scalarmult_base :: "byte list \<Rightarrow> 'pt"
  ge_p3_tobytes :: "'pt \<Rightarrow> byte list"

text \<open>
  Their size contract: the hash writes 64 bytes, an encoded point has 32 bytes.
\<close>

definition prims_ok :: "'pt prims \<Rightarrow> bool" where
  "prims_ok P \<longleftrightarrow>
     (\<forall>x. length (sha512 P x) = 64) \<and> (\<forall>p. length (ge_p3_tobytes P p) = 32)"

text \<open>
  Modelled from the spec: the group order \<open>L\<close> of the basepoint (\<^verbatim>\<open>sc.h\<close> is not
  among the sources); the curve of \<^verbatim>\<open>ed25519auth\<close> is Ed25519, whose basepoint has
  order \<open>2^252 + 27742317777372353535851937790883648493\<close>.
\<close>

definition group_order :: nat where
  "group_order = 2 ^ 252 + 27742317777372353535851937790883648493"

text \<open>
  Modelled from the spec: \<open>ReduceScalar(bytes) -> 32 bytes\<close> reduces an integer
  modulo the group order \<open>L\<close> to canonical little-endian form (\<^verbatim>\<open>sc.h\<close> is not among
  the sources).
\<close>

definition ReduceScalar :: "byte list \<Rightarrow> byte list" where
  "ReduceScalar bs = le_bytes 32 (le_int bs mod group_order)"

text \<open>
  Modelled from the spec: \<open>MultiplyAdd(a, b, c: scalars) -> scalar\<close> computes
  \<open>(a\<cdot>b + c) mod L\<close> (\<^verbatim>\<open>sc.h\<close> is not among the sources).
\<close>

definition MultiplyAdd :: "byte list \<Rightarrow> byte list \<Rightarrow> byte list \<Rightarrow> byte list" where
  "MultiplyAdd a b c = le_bytes 32 ((le_int a * le_int b + le_int c) mod group_order)"

text \<open>
  The calls as \<^verbatim>\<open>sign\<close> makes them. \<^verbatim>\<open>sc_reduce(s)\<close> reads the 64 bytes of
  \<open>s\<close> and writes the reduced scalar over its first 32 bytes; \<^verbatim>\<open>sc_muladd(out,a,b,c)\<close>
  reads 32 bytes of each operand.
\<close>

definition sc_reduce :: "byte list \<Rightarrow> byte list option" where
  "sc_reduce s = do { x \<leftarrow> load s 0 64; store s 0 (ReduceScalar x) }"

definition sc_muladd :: "byte list \<Rightarrow> byte list \<Rightarrow> byte list \<Rightarrow> byte list option" where
  "sc_muladd a b c =
     do { x \<leftarrow> load a 0 32; y \<leftarrow> load b 0 32; z \<leftarrow> load c 0 32;
          Some (MultiplyAdd x y z) }"


section \<open>The signing routine\<close>

text \<open>
  The state of one invocation: the four local arrays and the caller's memory. The
  arrays are not initialised by the C code, so the initial state holds arbitrary bytes
  in them.
\<close>

record sign_state =
  az :: "byte list"
  nonce :: "byte list"
  hram :: "byte list"
  buff :: "byte list"
  mem :: heap

definition locals_ok :: "sign_state \<Rightarrow> bool" where
  "locals_ok s \<longleftrightarrow>
     length (az s) = 64 \<and> length (nonce s) = 64 \<and> length (hram s) = 64 \<and>
     length (buff s) = 96"

text \<open>Lines 19 to 22: hash the password into \<open>az\<close> and clamp.\<close>

definition key_derivation :: "'pt prims \<Rightarrow> addr \<Rightarrow> nat \<Rightarrow> sign_state \<Rightarrow> sign_state option" where
  "key_derivation P pw pwlen s =
     do { inp \<leftarrow> heap_load (mem s) pw pwlen;
          a \<leftarrow> store (az s) 0 (sha512 P inp);
          a \<leftarrow> and_at a 0 248;
          a \<leftarrow> and_at a 31 63;
          a \<leftarrow> or_at a 31 64;
          Some (s\<lparr>az := a\<rparr>) }"

text \<open>Lines 24 to 26: the digest and the upper half of \<open>az\<close> into \<open>buff\<close>, hashed.\<close>

definition nonce_derivation :: "'pt prims \<Rightarrow> addr \<Rightarrow> sign_state \<Rightarrow> sign_state option" where
  "nonce_derivation P m s =
     do { d \<leftarrow> heap_load (mem s) m 32;
          b \<leftarrow> store (buff s) 64 d;
          pre \<leftarrow> load (az s) 32 32;
          b \<leftarrow> store b 32 pre;
          inp \<leftarrow> load b 32 64;
          n \<leftarrow> store (nonce s) 0 (sha512 P inp);
          Some (s\<lparr>nonce := n, buff := b\<rparr>) }"

text \<open>Lines 28 and 29: the public point, encoded at \<open>buff + 32\<close>.\<close>

definition public_point :: "'pt prims \<Rightarrow> sign_state \<Rightarrow> sign_state option" where
  "public_point P s =
     do { a \<leftarrow> load (az s) 0 32;
          b \<leftarrow> store (buff s) 32 (ge_p3_tobytes P (ge_scalarmult_base P a));
          Some (s\<lparr>buff := b\<rparr>) }"

text \<open>Lines 31 to 34: reduce the nonce, encode the commitment, copy it to \<open>sm\<close>.\<close>

definition commitment :: "'pt prims \<Rightarrow> addr \<Rightarrow> sign_state \<Rightarrow> sign_state option" where
  "commitment P sm s =
     do { n \<leftarrow> sc_reduce (nonce s);
          r \<leftarrow> load n 0 32;
          b \<leftarrow> store (buff s) 0 (ge_p3_tobytes P (ge_scalarmult_base P r));
          c \<leftarrow> load b 0 32;
          h \<leftarrow> heap_store (mem s) sm c;
          Some (s\<lparr>nonce := n, buff := b, mem := h\<rparr>) }"

text \<open>Lines 36 and 37: hash the 96 bytes of \<open>buff\<close> and reduce.\<close>

definition challenge :: "'pt prims \<Rightarrow> sign_state \<Rightarrow> sign_state option" where
  "challenge P s =
     do { inp \<leftarrow> load (buff s) 0 96;
          h \<leftarrow> store (hram s) 0 (sha512 P inp);
          h \<leftarrow> sc_reduce h;
          Some (s\<lparr>hram := h\<rparr>) }"

text \<open>Line 38: the response scalar, written at \<open>sm + 32\<close>.\<close>

definition response :: "addr \<Rightarrow> sign_state \<Rightarrow> sign_state option" where
  "response sm s =
     do { r \<leftarrow> sc_muladd (hram s) (az s) (nonce s);
          h \<leftarrow> heap_store (mem s) (sm + 32) r;
          Some (s\<lparr>mem := h\<rparr>) }"

definition sign :: "'pt prims \<Rightarrow> addr \<Rightarrow> addr \<Rightarrow> addr \<Rightarrow> nat \<Rightarrow> sign_state \<Rightarrow> sign_state option" where
  "sign P sm m pw pwlen s =
     do { s \<leftarrow> key_derivation P pw pwlen s;
          s \<leftarrow> nonce_derivation P m s;
          s \<leftarrow> public_point P s;
          s \<leftarrow> commitment P sm s;
          s \<leftarrow> challenge P s;
          response sm s }"

text \<open>
  The prefixes of the routine that end before the challenge hash (line 36) and before
  the multiply-add (line 38).
\<close>

definition before_challenge ::
  "'pt prims \<Rightarrow> addr \<Rightarrow> addr \<Rightarrow> addr \<Rightarrow> nat \<Rightarrow> sign_state \<Rightarrow> sign_state option" where
  "before_challenge P sm m pw pwlen s =
     do { s \<leftarrow> key_derivation P pw pwlen s;
          s \<leftarrow> nonce_derivation P m s;
          s \<leftarrow> public_point P s;
          commitment P sm s }"

definition before_response ::
  "'pt prims \<Rightarrow> addr \<Rightarrow> addr \<Rightarrow> addr \<Rightarrow> nat \<Rightarrow> sign_state \<Rightarrow> sign_state option" where
  "before_response P sm m pw pwlen s =
     do { s \<leftarrow> before_challenge P sm m pw pwlen s; challenge P s }"

text \<open>What the caller requires of its pointers: the three regions are allocated.\<close>

definition args_ok :: "sign_state \<Rightarrow> addr \<Rightarrow> addr \<Rightarrow> addr \<Rightarrow> nat \<Rightarrow> bool" where
  "args_ok s sm m pw pwlen \<longleftrightarrow>
     allocated (mem s) sm 64 \<and> allocated (mem s) m 32 \<and> allocated (mem s) pw pwlen"

text \<open>The 64 bytes at \<open>sm\<close> after the call.\<close>

definition signature_of ::
  "'pt prims \<Rightarrow> addr \<Rightarrow> addr \<Rightarrow> addr \<Rightarrow> nat \<Rightarrow> sign_state \<Rightarrow> byte list option" where
  "signature_of P sm m pw pwlen s =
     do { s' \<leftarrow> sign P sm m pw pwlen s; heap_load (mem s') sm 64 }"


text \<open>
  What the routine holds on the way: the secret scalar after the clamp, the reduced
  nonce, the 96 bytes the challenge hash reads at line 36, the reduced challenge, and
  the three operands the multiply-add reads at line 38, as numbers.
\<close>

definition secret_of :: "'pt prims \<Rightarrow> addr \<Rightarrow> nat \<Rightarrow> sign_state \<Rightarrow> byte list option" where
  "secret_of P pw pwlen s = do { s1 \<leftarrow> key_derivation P pw pwlen s; load (az s1) 0 32 }"

definition nonce_of ::
  "'pt prims \<Rightarrow> addr \<Rightarrow> addr \<Rightarrow> addr \<Rightarrow> nat \<Rightarrow> sign_state \<Rightarrow> byte list option" where
  "nonce_of P sm m pw pwlen s =
     do { s4 \<leftarrow> before_challenge P sm m pw pwlen s; load (nonce s4) 0 32 }"

definition challenge_input ::
  "'pt prims \<Rightarrow> addr \<Rightarrow> addr \<Rightarrow> addr \<Rightarrow> nat \<Rightarrow> sign_state \<Rightarrow> byte list option" where
  "challenge_input P sm m pw pwlen s =
     do { s4 \<leftarrow> before_challenge P sm m pw pwlen s; load (buff s4) 0 96 }"

definition challenge_of ::
  "'pt prims \<Rightarrow> addr \<Rightarrow> addr \<Rightarrow> addr \<Rightarrow> nat \<Rightarrow> sign_state \<Rightarrow> byte list option" where
  "challenge_of P sm m pw pwlen s =
     do { s5 \<leftarrow> before_response P sm m pw pwlen s; load (hram s5) 0 32 }"

definition muladd_operands ::
  "'pt prims \<Rightarrow> addr \<Rightarrow> addr \<Rightarrow> addr \<Rightarrow> nat \<Rightarrow> sign_state \<Rightarrow> (nat \<times> nat \<times> nat) option" where
  "muladd_operands P sm m pw pwlen s =
     do { s5 \<leftarrow> before_response P sm m pw pwlen s;
          x \<leftarrow> load (hram s5) 0 32; y \<leftarrow> load (az s5) 0 32; z \<leftarrow> load (nonce s5) 0 32;
          Some (le_int x, le_int y, le_int z) }"

text \<open>All three operands of the multiply-add are below the group order.\<close>

definition operands_canonical ::
  "'pt prims \<Rightarrow> addr \<Rightarrow> addr \<Rightarrow> addr \<Rightarrow> nat \<Rightarrow> sign_state \<Rightarrow> bool" where
  "operands_canonical P sm m pw pwlen s \<longleftrightarrow>
     (case muladd_operands P sm m pw pwlen s of
        None \<Rightarrow> False
      | Some (x, y, z) \<Rightarrow> x < group_order \<and> y < group_order \<and> z < group_order)"

text \<open>The clamp bits of a 32-byte scalar.\<close>

definition clamped :: "byte list \<Rightarrow> bool" where
  "clamped a \<longleftrightarrow>
     \<not> bit (a ! 0) 0 \<and> \<not> bit (a ! 0) 1 \<and> \<not> bit (a ! 0) 2 \<and>
     \<not> bit (a ! 31) 7 \<and> bit (a ! 31) 6"

text \<open>
  The digest and the password read the same after the call as before it.
\<close>

definition inputs_unchanged ::
  "'pt prims \<Rightarrow> addr \<Rightarrow> addr \<Rightarrow> addr \<Rightarrow> nat \<Rightarrow> sign_state \<Rightarrow> bool" where
  "inputs_unchanged P sm m pw pwlen s \<longleftrightarrow>
     (case sign P sm m pw pwlen s of
        None \<Rightarrow> False
      | Some s' \<Rightarrow>
          heap_load (mem s') m 32 = heap_load (mem s) m 32 \<and>
          heap_load (mem s') pw pwlen = heap_load (mem s) pw pwlen)"

text \<open>Two regions of the caller's memory share no address.\<close>

definition separate :: "addr \<Rightarrow> nat \<Rightarrow> addr \<Rightarrow> nat \<Rightarrow> bool" where
  "separate p n q k \<longleftrightarrow> n = 0 \<or> k = 0 \<or> p + n \<le> q \<or> q + k \<le> p"


section \<open>The steps as the specification words them\<close>

text \<open>
  Key Derivation: hash the password; clear the low 3 bits of byte 0; clear bit 255 and
  set bit 254 of the low half, that is bits 7 and 6 of byte 31.
\<close>

definition clamp :: "byte list \<Rightarrow> byte list" where
  "clamp d = d[0 := d ! 0 AND NOT 7, 31 := set_bit 6 (unset_bit 7 (d ! 31))]"

definition KeyDerivation :: "'pt prims \<Rightarrow> byte list \<Rightarrow> byte list" where
  "KeyDerivation P pwd = clamp (sha512 P pwd)"

definition SecretScalar :: "'pt prims \<Rightarrow> byte list \<Rightarrow> byte list" where
  "SecretScalar P pwd = take 32 (KeyDerivation P pwd)"

definition prefixHalf :: "'pt prims \<Rightarrow> byte list \<Rightarrow> byte list" where
  "prefixHalf P pwd = drop 32 (sha512 P pwd)"

definition NonceDerivation :: "'pt prims \<Rightarrow> byte list \<Rightarrow> byte list \<Rightarrow> byte list" where
  "NonceDerivation P prefix M = ReduceScalar (sha512 P (prefix @ M))"

definition Nonce :: "'pt prims \<Rightarrow> byte list \<Rightarrow> byte list \<Rightarrow> byte list" where
  "Nonce P M pwd = NonceDerivation P (prefixHalf P pwd) M"

definition PublicPoint :: "'pt prims \<Rightarrow> byte list \<Rightarrow> byte list" where
  "PublicPoint P pwd = ge_p3_tobytes P (ge_scalarmult_base P (SecretScalar P pwd))"

definition CommitmentPoint :: "'pt prims \<Rightarrow> byte list \<Rightarrow> byte list \<Rightarrow> byte list" where
  "CommitmentPoint P M pwd = ge_p3_tobytes P (ge_scalarmult_base P (Nonce P M pwd))"

definition Challenge :: "'pt prims \<Rightarrow> byte list \<Rightarrow> byte list \<Rightarrow> byte list \<Rightarrow> byte list" where
  "Challenge P R A M = ReduceScalar (sha512 P (R @ A @ M))"

definition ChallengeScalar :: "'pt prims \<Rightarrow> byte list \<Rightarrow> byte list \<Rightarrow> byte list" where
  "ChallengeScalar P M pwd = Challenge P (CommitmentPoint P M pwd) (PublicPoint P pwd) M"

definition ResponseScalar :: "'pt prims \<Rightarrow> byte list \<Rightarrow> byte list \<Rightarrow> byte list" where
  "ResponseScalar P M pwd =
     MultiplyAdd (ChallengeScalar P M pwd) (SecretScalar P pwd) (Nonce P M pwd)"

definition Sign :: "'pt prims \<Rightarrow> byte list \<Rightarrow> byte list \<Rightarrow> byte list" where
  "Sign P M pwd = CommitmentPoint P M pwd @ ResponseScalar P M pwd"


section \<open>The group, as a verifier sees it\<close>

text \<open>
  The points that \<^verbatim>\<open>ge_scalarmult_base\<close> returns are the multiples of the
  basepoint. A verifier works with them through the group: \<open>base_mult n\<close> is the
  \<open>n\<close>-fold multiple of the basepoint, \<open>point_add\<close> the group law, \<open>point_mult\<close> the
  multiplication of a point by a number, \<open>decode_point\<close> the inverse of the encoding.
\<close>

record 'pt group_view =
  base_mult :: "nat \<Rightarrow> 'pt"
  point_add :: "'pt \<Rightarrow> 'pt \<Rightarrow> 'pt"
  point_mult :: "nat \<Rightarrow> 'pt \<Rightarrow> 'pt"
  decode_point :: "byte list \<Rightarrow> 'pt option"

text \<open>
  What the curve collaborators owe: \<^verbatim>\<open>ge_scalarmult_base\<close> multiplies the
  basepoint by the little-endian value of a 32-byte scalar whose top bit is clear; the
  multiples of the basepoint add and multiply as the numbers do; the basepoint has order
  \<open>L\<close>; an encoded multiple of the basepoint decodes to itself.
\<close>

definition curve_ok :: "'pt prims \<Rightarrow> 'pt group_view \<Rightarrow> bool" where
  "curve_ok P G \<longleftrightarrow>
     (\<forall>a. length a = 32 \<and> le_int a < 2 ^ 255 \<longrightarrow>
          ge_scalarmult_base P a = base_mult G (le_int a)) \<and>
     (\<forall>x y. base_mult G (x + y) = point_add G (base_mult G x) (base_mult G y)) \<and>
     (\<forall>k x. point_mult G k (base_mult G x) = base_mult G (k * x)) \<and>
     (\<forall>x. base_mult G (x mod group_order) = base_mult G x) \<and>
     (\<forall>x. decode_point G (ge_p3_tobytes P (base_mult G x)) = Some (base_mult G x))"

text \<open>
  Modelled from the spec: a verifier of the signing equation
  \<open>s = r + H(R, A, M)\<cdot>a mod L\<close> (the repository has no verifier). With the public
  point \<open>A\<close> it accepts a 64-byte signature \<open>R \<parallel> s\<close> for the digest \<open>M\<close> when \<open>s\<close>
  is canonical, \<open>R\<close> and \<open>A\<close> decode, and \<open>s\<close> times the basepoint is \<open>R\<close> plus
  the reduced hash of \<open>R \<parallel> A \<parallel> M\<close> times \<open>A\<close>.
\<close>

definition verify ::
  "'pt prims \<Rightarrow> 'pt group_view \<Rightarrow> byte list \<Rightarrow> byte list \<Rightarrow> byte list \<Rightarrow> bool" where
  "verify P G A M sig \<longleftrightarrow>
     length sig = 64 \<and> le_int (drop 32 sig) < group_order \<and>
     (case (decode_point G (take 32 sig), decode_point G A) of
        (Some Rp, Some Ap) \<Rightarrow>
          base_mult G (le_int (drop 32 sig)) =
            point_add G Rp (point_mult G (le_int (Challenge P (take 32 sig) A M)) Ap)
      | _ \<Rightarrow> False)"


section \<open>A small instance\<close>

text \<open>
  Concrete collaborators on which the theorems are exercised. The hash is a toy: its
  upper half depends on the value of the input only, not on its length, so that
  \<open>[1, 2]\<close> and \<open>[1, 2, 0]\<close> share a prefix half. A point is its discrete logarithm:
  the group generated by the basepoint is the integers modulo \<open>L\<close>.
\<close>

definition demo_hash :: "byte list \<Rightarrow> byte list" where
  "demo_hash x =
     le_bytes 32 (2 ^ 256 - 1 - 8 * length x - le_int x) @ le_bytes 32 (1 + 1000003 * le_int x)"

definition demo_prims :: "nat prims" where
  "demo_prims =
     \<lparr>sha512 = demo_hash,
      ge_scalarmult_base = (\<lambda>a. le_int a mod group_order),
      ge_p3_tobytes = (\<lambda>p. le_bytes 32 p)\<rparr>"

definition demo_group :: "nat group_view" where
  "demo_group =
     \<lparr>base_mult = (\<lambda>n. n mod group_order),
      point_add = (\<lambda>x y. (x + y) mod group_order),
      point_mult = (\<lambda>k x. (k * x) mod group_order),
      decode_point = (\<lambda>bs. Some (le_int bs))\<rparr>"

text \<open>
  Caller memory: 64 bytes 255 at address 0, the bytes 64 to 95 at addresses 64 to 95,
  the bytes 1, 2, 0 at addresses 96 to 98, nothing beyond. A second memory holds the
  same digest and password 100 addresses higher, behind 64 bytes of other content.
\<close>

definition demo_heap :: heap where
  "demo_heap =
     (\<lambda>a. if a < 64 then Some 255 else if a < 96 then Some (of_nat a)
          else if a < 98 then Some (of_nat (a - 95)) else if a < 99 then Some 0 else None)"

definition demo_state :: sign_state where
  "demo_state =
     \<lparr>az = replicate 64 170, nonce = replicate 64 187, hram = replicate 64 204,
      buff = replicate 96 221, mem = demo_heap\<rparr>"

definition other_state :: sign_state where
  "other_state =
     \<lparr>az = replicate 64 1, nonce = replicate 64 2, hram = replicate 64 3,
      buff = replicate 96 4,
      mem = (\<lambda>a. if a < 100 then None else if a < 164 then Some 9 else demo_heap (a - 100))\<rparr>"

definition demo_digest :: "byte list" where
  "demo_digest = map of_nat [64..<96]"


section \<open>Properties of the model\<close>

subsection \<open>Little-endian scalars\<close>

lemma length_le_bytes [simp]: "length (le_bytes n x) = n"
  by (induction n arbitrary: x) simp_all

lemma le_int_bound: "le_int bs < 256 ^ length bs"
proof (induction bs)
  case Nil
  show ?case by simp
next
  case (Cons b bs)
  have "unat b < 256" using unsigned_less [of b] by simp
  with Cons show ?case by simp
qed

lemma le_int_le_bytes: "le_int (le_bytes n x) = x mod 256 ^ n"
proof (induction n arbitrary: x)
  case 0
  show ?case by simp
next
  case (Suc n)
  have "unat (of_nat (x mod 256) :: byte) = x mod 256"
    by (simp add: unat_of_nat)
  with Suc show ?case
    by (simp add: mod_mult2_eq)
qed

lemma le_int_append: "le_int (xs @ ys) = le_int xs + 256 ^ length xs * le_int ys"
  by (induction xs) (simp_all add: algebra_simps)

lemma group_order_pos: "0 < group_order"
  by (simp add: group_order_def)

lemma group_order_lt_253: "group_order < 2 ^ 253"
  by (simp add: group_order_def)

lemma length_ReduceScalar [simp]: "length (ReduceScalar bs) = 32"
  by (simp add: ReduceScalar_def)

lemma le_int_ReduceScalar: "le_int (ReduceScalar bs) = le_int bs mod group_order"
proof -
  have "le_int bs mod group_order < group_order"
    using group_order_pos by simp
  also have "group_order < 256 ^ 32" by (simp add: group_order_def)
  finally show ?thesis by (simp add: ReduceScalar_def le_int_le_bytes)
qed

lemma length_MultiplyAdd [simp]: "length (MultiplyAdd a b c) = 32"
  by (simp add: MultiplyAdd_def)

lemma le_int_MultiplyAdd:
  "le_int (MultiplyAdd a b c) = (le_int a * le_int b + le_int c) mod group_order"
proof -
  have "(le_int a * le_int b + le_int c) mod group_order < group_order"
    using group_order_pos by simp
  also have "group_order < 256 ^ 32" by (simp add: group_order_def)
  finally show ?thesis by (simp add: MultiplyAdd_def le_int_le_bytes)
qed

subsection \<open>Clamping, bit by bit\<close>

lemma bit_index_cases: "k < 8 \<Longrightarrow> k \<in> {0, 1, 2, 3, 4, 5, 6, 7 :: nat}"
  by simp arith

lemma clamp_byte0: "x AND 248 = x AND NOT (7 :: byte)"
proof (rule bit_word_eqI)
  fix k assume "k < LENGTH(8)"
  then have "k \<in> {0, 1, 2, 3, 4, 5, 6, 7 :: nat}"
    by (intro bit_index_cases) simp
  then show "bit (x AND 248) k = bit (x AND NOT 7) k"
    by (auto simp add: bit_simps)
qed

lemma clamp_byte31: "(x AND 63) OR 64 = set_bit 6 (unset_bit 7 (x :: byte))"
proof (rule bit_word_eqI)
  fix k assume "k < LENGTH(8)"
  then have "k \<in> {0, 1, 2, 3, 4, 5, 6, 7 :: nat}"
    by (intro bit_index_cases) simp
  then show "bit (x AND 63 OR 64) k = bit (set_bit 6 (unset_bit 7 x)) k"
    by (auto simp add: bit_simps)
qed

lemma low6_bound: "unat ((x::byte) AND 63) \<le> 63"
  using word_and_le1 [of x 63] by (simp add: word_le_nat_alt)

lemma unat_clamp31: "unat ((x::byte) AND 63 OR 64) = unat (x AND 63) + 64"
proof -
  have "(x AND 63) AND 64 = 0"
    by (simp add: and.assoc)
  then have eq: "(x AND 63) OR 64 = (x AND 63) + 64"
    by (simp add: disjunctive_add_eq_or)
  have "unat (x AND 63) + unat (64 :: byte) < 2 ^ LENGTH(8)"
    using low6_bound [of x] by simp
  then have "unat ((x AND 63) + 64) = unat (x AND 63) + unat (64 :: byte)"
    by (simp only: unat_add_lem)
  with eq show ?thesis by simp
qed

lemma unat_clamp31_range:
  "64 \<le> unat ((x::byte) AND 63 OR 64) \<and> unat ((x::byte) AND 63 OR 64) < 128"
  using low6_bound [of x] by (simp add: unat_clamp31)

lemma length_clamp [simp]: "length (clamp d) = length d"
  by (simp add: clamp_def)

lemma drop_32_clamp: "drop 32 (clamp d) = drop 32 d"
  by (simp add: clamp_def drop_update_cancel)

subsection \<open>Loads and stores\<close>

lemma load_ok: "off + n \<le> length buf \<Longrightarrow> load buf off n = Some (take n (drop off buf))"
  by (simp add: load_def)

lemma store_ok:
  "off + length bs \<le> length buf \<Longrightarrow>
   store buf off bs = Some (take off buf @ bs @ drop (off + length bs) buf)"
  by (simp add: store_def)

lemma store_out_of_bounds: "length buf < off + length bs \<Longrightarrow> store buf off bs = None"
  by (simp add: store_def)

lemma load_out_of_bounds: "length buf < off + n \<Longrightarrow> load buf off n = None"
  by (simp add: load_def)

lemma allocated_iff: "allocated h p n \<longleftrightarrow> (\<forall>a. p \<le> a \<and> a < p + n \<longrightarrow> h a \<noteq> None)"
  by (auto simp add: allocated_def list_all_iff)

lemma allocated_sub: "allocated h p n \<Longrightarrow> p \<le> q \<Longrightarrow> q + k \<le> p + n \<Longrightarrow> allocated h q k"
  by (simp add: allocated_iff)

lemma allocated_heap_write: "allocated h q n \<Longrightarrow> allocated (heap_write h p bs) q n"
  by (simp add: allocated_iff heap_write_def)

lemma heap_load_Some:
  "heap_load h p n = Some bs \<Longrightarrow> allocated h p n \<and> length bs = n"
  by (auto simp add: heap_load_def split: if_splits)

lemma heap_load_allocated: "allocated h p n \<Longrightarrow> \<exists>bs. heap_load h p n = Some bs"
  by (simp add: heap_load_def)

lemma heap_load_heap_write_same:
  "heap_load (heap_write h p bs) p (length bs) = Some bs"
proof -
  have "allocated (heap_write h p bs) p (length bs)"
    by (simp add: allocated_iff heap_write_def)
  moreover have "map (\<lambda>a. the (heap_write h p bs a)) [p..<p + length bs] = bs"
    by (rule nth_equalityI) (simp_all add: heap_write_def)
  ultimately show ?thesis by (simp add: heap_load_def)
qed

lemma heap_write_append:
  "heap_write (heap_write h p xs) (p + length xs) ys = heap_write h p (xs @ ys)"
  by (rule ext) (auto simp add: heap_write_def nth_append)

lemma heap_write_outside:
  "a < p \<or> p + length bs \<le> a \<Longrightarrow> heap_write h p bs a = h a"
  by (auto simp add: heap_write_def)

lemma heap_load_heap_write_disjoint:
  assumes "q + n \<le> p \<or> p + length bs \<le> q"
  shows "heap_load (heap_write h p bs) q n = heap_load h q n"
proof -
  have eq: "\<And>a. q \<le> a \<Longrightarrow> a < q + n \<Longrightarrow> heap_write h p bs a = h a"
    using assms by (auto simp add: heap_write_def)
  then have "allocated (heap_write h p bs) q n = allocated h q n"
    by (simp add: allocated_iff)
  moreover have "map (\<lambda>a. the (heap_write h p bs a)) [q..<q + n] = map (\<lambda>a. the (h a)) [q..<q + n]"
    using eq by simp
  ultimately show ?thesis by (simp add: heap_load_def)
qed

subsection \<open>Each step, run on a well-formed state\<close>

lemma clamp_run: "d[0 := d ! 0 AND 248, 31 := d ! 31 AND 63 OR 64] = clamp d"
  by (simp add: clamp_def clamp_byte0 clamp_byte31 [symmetric])

lemma key_derivation_run:
  assumes "prims_ok P" and "length (az s) = 64"
    and "heap_load (mem s) pw pwlen = Some pwd"
  shows "key_derivation P pw pwlen s = Some (s\<lparr>az := KeyDerivation P pwd\<rparr>)"
proof -
  have len: "length (sha512 P pwd) = 64"
    using assms(1) by (simp add: prims_ok_def)
  then have ne: "sha512 P pwd \<noteq> []"
    by auto
  have "store (az s) 0 (sha512 P pwd) = Some (sha512 P pwd)"
    using assms(2) len by (simp add: store_def)
  then show ?thesis
    using assms(3) len ne
    by (simp add: key_derivation_def and_at_def or_at_def KeyDerivation_def clamp_run)
qed

lemma nonce_derivation_run:
  assumes "prims_ok P" and "length (az s) = 64" and "length (nonce s) = 64"
    and "length (buff s) = 96" and "heap_load (mem s) m 32 = Some M"
  shows "nonce_derivation P m s =
           Some (s\<lparr>nonce := sha512 P (drop 32 (az s) @ M),
                   buff := take 32 (buff s) @ drop 32 (az s) @ M\<rparr>)"
proof -
  have lenM: "length M = 32"
    using heap_load_Some [OF assms(5)] by simp
  have lenH: "\<And>x. length (sha512 P x) = 64"
    using assms(1) by (simp add: prims_ok_def)
  have s1: "store (buff s) 64 M = Some (take 64 (buff s) @ M)"
    using assms(4) lenM by (simp add: store_def)
  have s2: "load (az s) 32 32 = Some (drop 32 (az s))"
    using assms(2) by (simp add: load_def)
  have s3: "store (take 64 (buff s) @ M) 32 (drop 32 (az s)) =
              Some (take 32 (buff s) @ drop 32 (az s) @ M)"
    using assms(2,4) lenM by (simp add: store_def min_def)
  have s4: "load (take 32 (buff s) @ drop 32 (az s) @ M) 32 64 = Some (drop 32 (az s) @ M)"
    using assms(2,4) lenM by (simp add: load_def)
  have s5: "store (nonce s) 0 (sha512 P (drop 32 (az s) @ M)) =
              Some (sha512 P (drop 32 (az s) @ M))"
    using assms(3) lenH by (simp add: store_def)
  show ?thesis
    by (simp add: nonce_derivation_def assms(5) s1 s2 s3 s4 s5)
qed

lemma public_point_run:
  assumes "prims_ok P" and "length (az s) = 64" and "length (buff s) = 96"
  shows "public_point P s =
           Some (s\<lparr>buff := take 32 (buff s) @
                     ge_p3_tobytes P (ge_scalarmult_base P (take 32 (az s))) @
                     drop 64 (buff s)\<rparr>)"
proof -
  have lenE: "\<And>p. length (ge_p3_tobytes P p) = 32"
    using assms(1) by (simp add: prims_ok_def)
  show ?thesis
    using assms(2,3) lenE by (simp add: public_point_def load_def store_def)
qed

lemma sc_reduce_run:
  assumes "length x = 64"
  shows "sc_reduce x = Some (ReduceScalar x @ drop 32 x)"
  using assms by (simp add: sc_reduce_def load_def store_def)

lemma commitment_run:
  assumes "prims_ok P" and "length (nonce s) = 64" and "length (buff s) = 96"
    and "allocated (mem s) sm 32"
  shows "commitment P sm s =
           Some (s\<lparr>nonce := ReduceScalar (nonce s) @ drop 32 (nonce s),
                   buff := ge_p3_tobytes P (ge_scalarmult_base P (ReduceScalar (nonce s))) @
                     drop 32 (buff s),
                   mem := heap_write (mem s) sm
                     (ge_p3_tobytes P (ge_scalarmult_base P (ReduceScalar (nonce s))))\<rparr>)"
proof -
  have lenE: "\<And>p. length (ge_p3_tobytes P p) = 32"
    using assms(1) by (simp add: prims_ok_def)
  show ?thesis
    using assms(2,3,4) lenE
    by (simp add: commitment_def sc_reduce_run load_def store_def heap_store_def)
qed

lemma challenge_run:
  assumes "prims_ok P" and "length (hram s) = 64" and "length (buff s) = 96"
  shows "challenge P s =
           Some (s\<lparr>hram := ReduceScalar (sha512 P (buff s)) @ drop 32 (sha512 P (buff s))\<rparr>)"
proof -
  have lenH: "\<And>x. length (sha512 P x) = 64"
    using assms(1) by (simp add: prims_ok_def)
  show ?thesis
    using assms(2,3) lenH by (simp add: challenge_def sc_reduce_run load_def store_def)
qed

lemma response_run:
  assumes "32 \<le> length (hram s)" and "32 \<le> length (az s)" and "32 \<le> length (nonce s)"
    and "allocated (mem s) (sm + 32) 32"
  shows "response sm s =
           Some (s\<lparr>mem := heap_write (mem s) (sm + 32)
                     (MultiplyAdd (take 32 (hram s)) (take 32 (az s)) (take 32 (nonce s)))\<rparr>)"
  using assms by (simp add: response_def sc_muladd_def load_def heap_store_def)

subsection \<open>The routine, run on a well-formed state\<close>

lemma length_KeyDerivation: "prims_ok P \<Longrightarrow> length (KeyDerivation P pwd) = 64"
  by (simp add: KeyDerivation_def prims_ok_def)

lemma drop_32_KeyDerivation: "drop 32 (KeyDerivation P pwd) = prefixHalf P pwd"
  by (simp add: KeyDerivation_def prefixHalf_def drop_32_clamp)

lemma length_prefixHalf: "prims_ok P \<Longrightarrow> length (prefixHalf P pwd) = 32"
  by (simp add: prefixHalf_def prims_ok_def)

lemma length_CommitmentPoint: "prims_ok P \<Longrightarrow> length (CommitmentPoint P M pwd) = 32"
  by (simp add: CommitmentPoint_def prims_ok_def)

lemma length_PublicPoint: "prims_ok P \<Longrightarrow> length (PublicPoint P pwd) = 32"
  by (simp add: PublicPoint_def prims_ok_def)

lemma length_Nonce [simp]: "length (Nonce P M pwd) = 32"
  by (simp add: Nonce_def NonceDerivation_def)

lemma length_ChallengeScalar [simp]: "length (ChallengeScalar P M pwd) = 32"
  by (simp add: ChallengeScalar_def Challenge_def)

lemma length_ResponseScalar [simp]: "length (ResponseScalar P M pwd) = 32"
  by (simp add: ResponseScalar_def)

lemma before_challenge_run:
  assumes P: "prims_ok P" and s: "locals_ok s"
    and pw: "heap_load (mem s) pw pwlen = Some pwd"
    and m: "heap_load (mem s) m 32 = Some M"
    and sm: "allocated (mem s) sm 32"
  shows "before_challenge P sm m pw pwlen s =
           Some (s\<lparr>az := KeyDerivation P pwd,
                   nonce := Nonce P M pwd @ drop 32 (sha512 P (prefixHalf P pwd @ M)),
                   buff := CommitmentPoint P M pwd @ PublicPoint P pwd @ M,
                   mem := heap_write (mem s) sm (CommitmentPoint P M pwd)\<rparr>)"
proof -
  define s1 where "s1 = s\<lparr>az := KeyDerivation P pwd\<rparr>"
  define s2 where "s2 = s1\<lparr>nonce := sha512 P (prefixHalf P pwd @ M),
                          buff := take 32 (buff s) @ prefixHalf P pwd @ M\<rparr>"
  define s3 where "s3 = s2\<lparr>buff := take 32 (buff s) @ PublicPoint P pwd @ M\<rparr>"
  have lens: "length (az s) = 64" "length (nonce s) = 64" "length (buff s) = 96"
    using s by (simp_all add: locals_ok_def)
  have lenM: "length M = 32"
    using heap_load_Some [OF m] by simp
  have lenH: "\<And>x. length (sha512 P x) = 64"
    using P by (simp add: prims_ok_def)
  have k: "key_derivation P pw pwlen s = Some s1"
    unfolding s1_def by (rule key_derivation_run [OF P lens(1) pw])
  have n: "nonce_derivation P m s1 = Some s2"
    using nonce_derivation_run [of P s1 m M] P lens m
    by (simp add: s1_def s2_def length_KeyDerivation drop_32_KeyDerivation)
  have a: "public_point P s2 = Some s3"
    using public_point_run [of P s2] P lens lenM
    by (simp add: s1_def s2_def s3_def length_KeyDerivation length_prefixHalf
        PublicPoint_def SecretScalar_def)
  have c: "commitment P sm s3 =
             Some (s3\<lparr>nonce := Nonce P M pwd @ drop 32 (sha512 P (prefixHalf P pwd @ M)),
                      buff := CommitmentPoint P M pwd @ PublicPoint P pwd @ M,
                      mem := heap_write (mem s) sm (CommitmentPoint P M pwd)\<rparr>)"
    using commitment_run [of P s3 sm] P lens lenM lenH sm
    by (simp add: s1_def s2_def s3_def length_PublicPoint CommitmentPoint_def Nonce_def
        NonceDerivation_def)
  show ?thesis
    by (simp add: before_challenge_def k n a c) (simp add: s1_def s2_def s3_def)
qed

lemma before_response_run:
  assumes P: "prims_ok P" and s: "locals_ok s"
    and pw: "heap_load (mem s) pw pwlen = Some pwd"
    and m: "heap_load (mem s) m 32 = Some M"
    and sm: "allocated (mem s) sm 32"
  shows "before_response P sm m pw pwlen s =
           Some (s\<lparr>az := KeyDerivation P pwd,
                   nonce := Nonce P M pwd @ drop 32 (sha512 P (prefixHalf P pwd @ M)),
                   hram := ChallengeScalar P M pwd @
                     drop 32 (sha512 P (CommitmentPoint P M pwd @ PublicPoint P pwd @ M)),
                   buff := CommitmentPoint P M pwd @ PublicPoint P pwd @ M,
                   mem := heap_write (mem s) sm (CommitmentPoint P M pwd)\<rparr>)"
proof -
  define s4 where "s4 = s\<lparr>az := KeyDerivation P pwd,
                   nonce := Nonce P M pwd @ drop 32 (sha512 P (prefixHalf P pwd @ M)),
                   buff := CommitmentPoint P M pwd @ PublicPoint P pwd @ M,
                   mem := heap_write (mem s) sm (CommitmentPoint P M pwd)\<rparr>"
  have b: "before_challenge P sm m pw pwlen s = Some s4"
    unfolding s4_def by (rule before_challenge_run [OF P s pw m sm])
  have lenM: "length M = 32"
    using heap_load_Some [OF m] by simp
  have "length (hram s4) = 64" "length (buff s4) = 96"
    using s P lenM
    by (simp_all add: s4_def locals_ok_def length_CommitmentPoint length_PublicPoint)
  from challenge_run [OF P this] show ?thesis
    by (simp add: before_response_def b) (simp add: s4_def ChallengeScalar_def Challenge_def)
qed

lemma sign_split:
  "sign P sm m pw pwlen s = do { s' \<leftarrow> before_response P sm m pw pwlen s; response sm s' }"
  by (simp add: sign_def before_response_def before_challenge_def)

lemma sign_run:
  assumes P: "prims_ok P" and s: "locals_ok s"
    and pw: "heap_load (mem s) pw pwlen = Some pwd"
    and m: "heap_load (mem s) m 32 = Some M"
    and sm: "allocated (mem s) sm 64"
  shows "sign P sm m pw pwlen s =
           Some (s\<lparr>az := KeyDerivation P pwd,
                   nonce := Nonce P M pwd @ drop 32 (sha512 P (prefixHalf P pwd @ M)),
                   hram := ChallengeScalar P M pwd @
                     drop 32 (sha512 P (CommitmentPoint P M pwd @ PublicPoint P pwd @ M)),
                   buff := CommitmentPoint P M pwd @ PublicPoint P pwd @ M,
                   mem := heap_write (mem s) sm (Sign P M pwd)\<rparr>)"
proof -
  define s5 where "s5 = s\<lparr>az := KeyDerivation P pwd,
                   nonce := Nonce P M pwd @ drop 32 (sha512 P (prefixHalf P pwd @ M)),
                   hram := ChallengeScalar P M pwd @
                     drop 32 (sha512 P (CommitmentPoint P M pwd @ PublicPoint P pwd @ M)),
                   buff := CommitmentPoint P M pwd @ PublicPoint P pwd @ M,
                   mem := heap_write (mem s) sm (CommitmentPoint P M pwd)\<rparr>"
  have sm1: "allocated (mem s) sm 32" and sm2: "allocated (mem s) (sm + 32) 32"
    using sm by (simp_all add: allocated_iff)
  have b: "before_response P sm m pw pwlen s = Some s5"
    unfolding s5_def by (rule before_response_run [OF P s pw m sm1])
  have lenR: "length (CommitmentPoint P M pwd) = 32"
    by (rule length_CommitmentPoint [OF P])
  have ops: "take 32 (hram s5) = ChallengeScalar P M pwd"
    "take 32 (az s5) = SecretScalar P pwd" "take 32 (nonce s5) = Nonce P M pwd"
    by (simp_all add: s5_def ChallengeScalar_def Challenge_def SecretScalar_def Nonce_def
        NonceDerivation_def)
  have "32 \<le> length (hram s5)" "32 \<le> length (az s5)" "32 \<le> length (nonce s5)"
    using P by (simp_all add: s5_def length_KeyDerivation)
  moreover have "allocated (mem s5) (sm + 32) 32"
    using sm2 by (simp add: s5_def allocated_heap_write)
  ultimately have "response sm s5 =
      Some (s5\<lparr>mem := heap_write (mem s5) (sm + 32) (ResponseScalar P M pwd)\<rparr>)"
    using response_run [of s5 sm] by (simp add: ops ResponseScalar_def)
  moreover have "heap_write (mem s5) (sm + 32) (ResponseScalar P M pwd) =
      heap_write (mem s) sm (Sign P M pwd)"
    using heap_write_append [of "mem s" sm "CommitmentPoint P M pwd" "ResponseScalar P M pwd"]
    by (simp add: s5_def lenR Sign_def)
  ultimately show ?thesis
    by (simp add: sign_split b) (simp add: s5_def)
qed

lemma length_Sign: "prims_ok P \<Longrightarrow> length (Sign P M pwd) = 64"
  by (simp add: Sign_def length_CommitmentPoint)

lemma signature_of_run:
  assumes P: "prims_ok P" and s: "locals_ok s"
    and pw: "heap_load (mem s) pw pwlen = Some pwd"
    and m: "heap_load (mem s) m 32 = Some M"
    and sm: "allocated (mem s) sm 64"
  shows "signature_of P sm m pw pwlen s = Some (Sign P M pwd)"
  using heap_load_heap_write_same [of "mem s" sm "Sign P M pwd"]
  by (simp add: signature_of_def sign_run [OF P s pw m sm] length_Sign [OF P])

subsection \<open>The small instance is well formed\<close>

lemma demo_prims_ok: "prims_ok demo_prims"
  by (simp add: prims_ok_def demo_prims_def demo_hash_def)

lemma demo_locals_ok: "locals_ok demo_state"
  by (simp add: locals_ok_def demo_state_def)

lemma other_locals_ok: "locals_ok other_state"
  by (simp add: locals_ok_def other_state_def)

lemma demo_pw: "heap_load (mem demo_state) 96 3 = Some [1, 2, 0]"
  by code_simp

lemma demo_pw_empty: "heap_load (mem demo_state) 96 0 = Some []"
  by code_simp

lemma demo_m: "heap_load (mem demo_state) 64 32 = Some demo_digest"
  by code_simp

lemma demo_sm: "allocated (mem demo_state) 0 64"
  by code_simp

lemma demo_args_ok: "args_ok demo_state 0 64 96 3"
  by code_simp

lemma other_pw: "heap_load (mem other_state) 196 3 = Some [1, 2, 0]"
  by code_simp

lemma other_m: "heap_load (mem other_state) 164 32 = Some demo_digest"
  by code_simp

lemma other_sm: "allocated (mem other_state) 100 64"
  by code_simp

lemma demo_pw_short: "heap_load (mem demo_state) 96 2 = Some [1, 2]"
  by code_simp

lemma demo_same_prefix: "prefixHalf demo_prims [1, 2] = prefixHalf demo_prims [1, 2, 0]"
  by code_simp

lemma demo_other_secret: "SecretScalar demo_prims [1, 2] \<noteq> SecretScalar demo_prims [1, 2, 0]"
  by code_simp

lemma other_args_ok: "args_ok other_state 100 164 196 3"
  by code_simp

lemma demo_args_empty_ok: "args_ok demo_state 0 64 96 0"
  by code_simp

lemma demo_aliased_digest: "heap_load (mem demo_state) 0 32 = Some (replicate 32 255)"
  by code_simp

lemma demo_aliased_commitment:
  "CommitmentPoint demo_prims (replicate 32 255) pwd \<noteq> replicate 32 255"
proof
  assume "CommitmentPoint demo_prims (replicate 32 255) pwd = replicate 32 255"
  then have "le_int (CommitmentPoint demo_prims (replicate 32 255) pwd) =
      le_int (replicate 32 255)"
    by simp
  moreover have "le_int (replicate 32 255) = 2 ^ 256 - 1"
    by code_simp
  moreover have "le_int (CommitmentPoint demo_prims (replicate 32 255) pwd) < group_order"
    using group_order_pos
    by (simp add: CommitmentPoint_def demo_prims_def le_int_le_bytes
        mod_less_eq_dividend [THEN le_less_trans])
  ultimately show False
    by (simp add: group_order_def)
qed

lemma demo_separate: "separate 64 32 0 64" "separate 96 3 0 64"
  by (simp_all add: separate_def)

lemma demo_curve_ok: "curve_ok demo_prims demo_group"
proof -
  have "\<And>x. le_int (le_bytes 32 (x mod group_order)) = x mod group_order"
  proof -
    fix x
    have "x mod group_order < group_order"
      using group_order_pos by simp
    also have "group_order < 256 ^ 32"
      by (simp add: group_order_def)
    finally show "le_int (le_bytes 32 (x mod group_order)) = x mod group_order"
      by (simp add: le_int_le_bytes)
  qed
  then show ?thesis
    by (simp add: curve_ok_def demo_prims_def demo_group_def mod_add_eq mod_mult_right_eq)
qed

subsection \<open>The clamp\<close>

lemma clamp_nth:
  assumes "32 \<le> length d"
  shows "clamp d ! 0 = d ! 0 AND 248" and "clamp d ! 31 = d ! 31 AND 63 OR 64"
proof -
  have "d \<noteq> []" and "31 < length d"
    using assms by auto
  then show "clamp d ! 0 = d ! 0 AND 248" and "clamp d ! 31 = d ! 31 AND 63 OR 64"
    by (simp_all add: clamp_run [symmetric])
qed

lemma clamped_clamp: "32 \<le> length d \<Longrightarrow> clamped (take 32 (clamp d))"
  by (simp add: clamped_def clamp_nth bit_simps)

lemma secret_of_run:
  assumes "prims_ok P" and "length (az s) = 64"
    and "heap_load (mem s) pw pwlen = Some pwd"
  shows "secret_of P pw pwlen s = Some (SecretScalar P pwd)"
  using assms
  by (simp add: secret_of_def key_derivation_run load_def length_KeyDerivation
      SecretScalar_def)

text \<open>
  Claim C4. For every password, the empty one included, the secret scalar that Key
  Derivation leaves in the low 32 bytes of \<open>az\<close> has the low 3 bits of byte 0 clear,
  bit 7 of byte 31 clear and bit 6 of byte 31 set.
\<close>

theorem clamp_invariants:
  assumes "prims_ok P" and "length (az s) = 64"
    and "heap_load (mem s) pw pwlen = Some pwd"
  shows "secret_of P pw pwlen s = Some (SecretScalar P pwd) \<and>
         length (SecretScalar P pwd) = 32 \<and> clamped (SecretScalar P pwd)"
proof -
  have len: "length (sha512 P pwd) = 64"
    using assms(1) by (simp add: prims_ok_def)
  then have "clamped (SecretScalar P pwd)"
    by (simp add: SecretScalar_def KeyDerivation_def clamped_clamp)
  moreover have "length (SecretScalar P pwd) = 32"
    using len by (simp add: SecretScalar_def KeyDerivation_def)
  ultimately show ?thesis
    using secret_of_run [OF assms] by simp
qed

theorem clamp_invariants_witness:
  "prims_ok demo_prims \<and> length (az demo_state) = 64 \<and>
   heap_load (mem demo_state) 96 0 = Some [] \<and>
   secret_of demo_prims 96 0 demo_state = Some (SecretScalar demo_prims []) \<and>
   clamped (SecretScalar demo_prims [])"
proof -
  have len: "length (az demo_state) = 64"
    by (simp add: demo_state_def)
  show ?thesis
    using clamp_invariants [OF demo_prims_ok len demo_pw_empty] demo_prims_ok len demo_pw_empty
    by simp
qed

subsection \<open>What the routine holds on the way\<close>

lemma nonce_of_run:
  assumes "prims_ok P" and "locals_ok s" and "heap_load (mem s) pw pwlen = Some pwd"
    and "heap_load (mem s) m 32 = Some M" and "allocated (mem s) sm 32"
  shows "nonce_of P sm m pw pwlen s = Some (Nonce P M pwd)"
  by (simp add: nonce_of_def before_challenge_run [OF assms] load_def)

lemma challenge_input_run:
  assumes "prims_ok P" and "locals_ok s" and "heap_load (mem s) pw pwlen = Some pwd"
    and "heap_load (mem s) m 32 = Some M" and "allocated (mem s) sm 32"
  shows "challenge_input P sm m pw pwlen s =
           Some (CommitmentPoint P M pwd @ PublicPoint P pwd @ M)"
  using heap_load_Some [OF assms(4)]
  by (simp add: challenge_input_def before_challenge_run [OF assms] load_def
      length_CommitmentPoint [OF assms(1)] length_PublicPoint [OF assms(1)])

lemma challenge_of_run:
  assumes "prims_ok P" and "locals_ok s" and "heap_load (mem s) pw pwlen = Some pwd"
    and "heap_load (mem s) m 32 = Some M" and "allocated (mem s) sm 32"
  shows "challenge_of P sm m pw pwlen s = Some (ChallengeScalar P M pwd)"
  by (simp add: challenge_of_def before_response_run [OF assms] load_def)

lemma muladd_operands_run:
  assumes "prims_ok P" and "locals_ok s" and "heap_load (mem s) pw pwlen = Some pwd"
    and "heap_load (mem s) m 32 = Some M" and "allocated (mem s) sm 32"
  shows "muladd_operands P sm m pw pwlen s =
           Some (le_int (ChallengeScalar P M pwd), le_int (SecretScalar P pwd),
                 le_int (Nonce P M pwd))"
  by (simp add: muladd_operands_def before_response_run [OF assms] load_def
      length_KeyDerivation [OF assms(1)] SecretScalar_def)

lemma allocated_64_32: "allocated h sm 64 \<Longrightarrow> allocated h sm 32"
  by (simp add: allocated_iff)

lemma take_32_Sign: "prims_ok P \<Longrightarrow> take 32 (Sign P M pwd) = CommitmentPoint P M pwd"
  by (simp add: Sign_def length_CommitmentPoint)

lemma drop_32_Sign: "prims_ok P \<Longrightarrow> drop 32 (Sign P M pwd) = ResponseScalar P M pwd"
  by (simp add: Sign_def length_CommitmentPoint)

lemma le_int_Nonce: "le_int (Nonce P M pwd) = le_int (sha512 P (prefixHalf P pwd @ M)) mod group_order"
  by (simp add: Nonce_def NonceDerivation_def le_int_ReduceScalar)

lemma le_int_ChallengeScalar:
  "le_int (ChallengeScalar P M pwd) =
     le_int (sha512 P (CommitmentPoint P M pwd @ PublicPoint P pwd @ M)) mod group_order"
  by (simp add: ChallengeScalar_def Challenge_def le_int_ReduceScalar)

lemma le_int_ResponseScalar:
  "le_int (ResponseScalar P M pwd) =
     (le_int (ChallengeScalar P M pwd) * le_int (SecretScalar P pwd) + le_int (Nonce P M pwd))
       mod group_order"
  by (simp add: ResponseScalar_def le_int_MultiplyAdd)

text \<open>
  Claim C2. For every password and 32-byte digest, the last 32 bytes of the signature
  are the scalar (ChallengeScalar \<open>\<cdot>\<close> SecretScalar + Nonce) mod \<open>L\<close>, where the three
  operands the multiply-add reads are the reduced challenge hash, the clamped low half
  of the password hash and the reduced nonce; the scalar fills bytes 32 to 63 of the
  64-byte output.
\<close>

theorem response_scalar:
  assumes "prims_ok P" and "locals_ok s" and "heap_load (mem s) pw pwlen = Some pwd"
    and "heap_load (mem s) m 32 = Some M" and "allocated (mem s) sm 64"
  shows "\<exists>sig. signature_of P sm m pw pwlen s = Some sig \<and> length sig = 64 \<and>
           muladd_operands P sm m pw pwlen s =
             Some (le_int (ChallengeScalar P M pwd), le_int (SecretScalar P pwd),
                   le_int (Nonce P M pwd)) \<and>
           drop 32 sig = ResponseScalar P M pwd \<and>
           le_int (drop 32 sig) =
             (le_int (ChallengeScalar P M pwd) * le_int (SecretScalar P pwd) +
              le_int (Nonce P M pwd)) mod group_order"
proof -
  have "signature_of P sm m pw pwlen s = Some (Sign P M pwd)"
    by (rule signature_of_run [OF assms])
  moreover have "length (Sign P M pwd) = 64"
    by (rule length_Sign [OF assms(1)])
  moreover note muladd_operands_run [OF assms(1-4) allocated_64_32 [OF assms(5)]]
  moreover have "drop 32 (Sign P M pwd) = ResponseScalar P M pwd"
    by (rule drop_32_Sign [OF assms(1)])
  ultimately show ?thesis
    by (simp add: le_int_ResponseScalar)
qed

theorem response_scalar_witness:
  "prims_ok demo_prims \<and> locals_ok demo_state \<and>
   heap_load (mem demo_state) 96 3 = Some [1, 2, 0] \<and>
   heap_load (mem demo_state) 64 32 = Some demo_digest \<and>
   allocated (mem demo_state) 0 64 \<and>
   (\<exists>sig. signature_of demo_prims 0 64 96 3 demo_state = Some sig \<and> length sig = 64 \<and>
      le_int (drop 32 sig) =
        (le_int (ChallengeScalar demo_prims demo_digest [1, 2, 0]) *
         le_int (SecretScalar demo_prims [1, 2, 0]) +
         le_int (Nonce demo_prims demo_digest [1, 2, 0])) mod group_order)"
  using response_scalar [OF demo_prims_ok demo_locals_ok demo_pw demo_m demo_sm]
    demo_prims_ok demo_locals_ok demo_pw demo_m demo_sm
  by blast

text \<open>
  Claim C3. For every password and 32-byte digest, the challenge hash reads exactly the
  96 bytes CommitmentPoint \<open>\<parallel>\<close> PublicPoint \<open>\<parallel>\<close> MessageDigest in this order: bytes 0 to
  31 the encoded commitment, bytes 32 to 63 the encoded public point (nothing of the
  prefix stored there before remains), bytes 64 to 95 the digest; the challenge scalar
  is the hash of that buffer reduced mod \<open>L\<close>.
\<close>

theorem challenge_hash_input:
  assumes "prims_ok P" and "locals_ok s" and "heap_load (mem s) pw pwlen = Some pwd"
    and "heap_load (mem s) m 32 = Some M" and "allocated (mem s) sm 32"
  shows "\<exists>inp. challenge_input P sm m pw pwlen s = Some inp \<and> length inp = 96 \<and>
           take 32 inp = ge_p3_tobytes P (ge_scalarmult_base P (Nonce P M pwd)) \<and>
           take 32 (drop 32 inp) =
             ge_p3_tobytes P (ge_scalarmult_base P (SecretScalar P pwd)) \<and>
           drop 64 inp = M \<and>
           challenge_of P sm m pw pwlen s = Some (ReduceScalar (sha512 P inp)) \<and>
           le_int (ReduceScalar (sha512 P inp)) = le_int (sha512 P inp) mod group_order"
proof -
  let ?inp = "CommitmentPoint P M pwd @ PublicPoint P pwd @ M"
  have lens: "length (CommitmentPoint P M pwd) = 32" "length (PublicPoint P pwd) = 32"
    "length M = 32"
    using assms(1) heap_load_Some [OF assms(4)]
    by (simp_all add: length_CommitmentPoint length_PublicPoint)
  have "challenge_input P sm m pw pwlen s = Some ?inp"
    by (rule challenge_input_run [OF assms])
  moreover have "challenge_of P sm m pw pwlen s = Some (ReduceScalar (sha512 P ?inp))"
    by (simp add: challenge_of_run [OF assms] ChallengeScalar_def Challenge_def)
  moreover have "take 32 ?inp = ge_p3_tobytes P (ge_scalarmult_base P (Nonce P M pwd))"
    using lens by (simp add: CommitmentPoint_def)
  moreover have "take 32 (drop 32 ?inp) =
      ge_p3_tobytes P (ge_scalarmult_base P (SecretScalar P pwd))"
    using lens by (simp add: PublicPoint_def)
  moreover have "drop 64 ?inp = M" and "length ?inp = 96"
    using lens by simp_all
  ultimately show ?thesis
    by (simp add: le_int_ReduceScalar)
qed

theorem challenge_hash_input_witness:
  "prims_ok demo_prims \<and> locals_ok demo_state \<and>
   heap_load (mem demo_state) 96 3 = Some [1, 2, 0] \<and>
   heap_load (mem demo_state) 64 32 = Some demo_digest \<and>
   allocated (mem demo_state) 0 32 \<and>
   (\<exists>inp. challenge_input demo_prims 0 64 96 3 demo_state = Some inp \<and> length inp = 96 \<and>
      drop 64 inp = demo_digest \<and>
      challenge_of demo_prims 0 64 96 3 demo_state = Some (ReduceScalar (sha512 demo_prims inp)))"
  using challenge_hash_input [OF demo_prims_ok demo_locals_ok demo_pw demo_m
      allocated_64_32 [OF demo_sm]]
    demo_prims_ok demo_locals_ok demo_pw demo_m allocated_64_32 [OF demo_sm]
  by blast

text \<open>
  Claim C8. For every password and 32-byte digest, the output is exactly 64 bytes,
  CommitmentPoint \<open>\<parallel>\<close> ResponseScalar; its first 32 bytes are the encoding of the
  basepoint multiplied by the reduced nonce.
\<close>

theorem signature_layout:
  assumes "prims_ok P" and "locals_ok s" and "heap_load (mem s) pw pwlen = Some pwd"
    and "heap_load (mem s) m 32 = Some M" and "allocated (mem s) sm 64"
  shows "\<exists>sig r. signature_of P sm m pw pwlen s = Some sig \<and> length sig = 64 \<and>
           nonce_of P sm m pw pwlen s = Some r \<and> length r = 32 \<and>
           le_int r = le_int (sha512 P (prefixHalf P pwd @ M)) mod group_order \<and>
           take 32 sig = ge_p3_tobytes P (ge_scalarmult_base P r) \<and>
           drop 32 sig = ResponseScalar P M pwd \<and>
           sig = CommitmentPoint P M pwd @ ResponseScalar P M pwd"
proof -
  have "signature_of P sm m pw pwlen s = Some (Sign P M pwd)"
    by (rule signature_of_run [OF assms])
  moreover have "nonce_of P sm m pw pwlen s = Some (Nonce P M pwd)"
    by (rule nonce_of_run [OF assms(1-4) allocated_64_32 [OF assms(5)]])
  moreover have "take 32 (Sign P M pwd) =
      ge_p3_tobytes P (ge_scalarmult_base P (Nonce P M pwd))"
    by (simp add: take_32_Sign [OF assms(1)] CommitmentPoint_def)
  moreover have "length (Sign P M pwd) = 64"
    and "drop 32 (Sign P M pwd) = ResponseScalar P M pwd"
    and "Sign P M pwd = CommitmentPoint P M pwd @ ResponseScalar P M pwd"
    by (rule length_Sign [OF assms(1)], rule drop_32_Sign [OF assms(1)], rule Sign_def)
  moreover have "length (Nonce P M pwd) = 32" and
    "le_int (Nonce P M pwd) = le_int (sha512 P (prefixHalf P pwd @ M)) mod group_order"
    by (simp_all add: le_int_Nonce)
  ultimately show ?thesis
    by blast
qed

theorem signature_layout_witness:
  "prims_ok demo_prims \<and> locals_ok demo_state \<and>
   heap_load (mem demo_state) 96 3 = Some [1, 2, 0] \<and>
   heap_load (mem demo_state) 64 32 = Some demo_digest \<and>
   allocated (mem demo_state) 0 64 \<and>
   (\<exists>sig r. signature_of demo_prims 0 64 96 3 demo_state = Some sig \<and> length sig = 64 \<and>
      nonce_of demo_prims 0 64 96 3 demo_state = Some r \<and>
      take 32 sig = ge_p3_tobytes demo_prims (ge_scalarmult_base demo_prims r))"
  using signature_layout [OF demo_prims_ok demo_locals_ok demo_pw demo_m demo_sm]
    demo_prims_ok demo_locals_ok demo_pw demo_m demo_sm
  by blast

text \<open>
  Claim C7. The nonce is the hash of the 64 bytes prefixHalf \<open>\<parallel>\<close> MessageDigest, reduced
  mod \<open>L\<close>, and depends on those 64 bytes only: two passwords whose hashes share the
  upper 32 bytes give, with one digest, the same nonce, whatever their lengths and
  their other bytes.
\<close>

theorem nonce_depends_on_prefix_and_digest:
  assumes "prims_ok P" and "locals_ok s" and "locals_ok s'"
    and "heap_load (mem s) pw pwlen = Some pwd"
    and "heap_load (mem s') pw' pwlen' = Some pwd'"
    and "heap_load (mem s) m 32 = Some M" and "heap_load (mem s') m' 32 = Some M"
    and "allocated (mem s) sm 32" and "allocated (mem s') sm' 32"
    and "drop 32 (sha512 P pwd) = drop 32 (sha512 P pwd')"
  shows "nonce_of P sm m pw pwlen s =
           Some (ReduceScalar (sha512 P (drop 32 (sha512 P pwd) @ M))) \<and>
         length (drop 32 (sha512 P pwd) @ M) = 64 \<and>
         le_int (ReduceScalar (sha512 P (drop 32 (sha512 P pwd) @ M))) =
           le_int (sha512 P (drop 32 (sha512 P pwd) @ M)) mod group_order \<and>
         nonce_of P sm' m' pw' pwlen' s' = nonce_of P sm m pw pwlen s"
proof -
  have a: "nonce_of P sm m pw pwlen s = Some (Nonce P M pwd)"
    by (rule nonce_of_run [OF assms(1,2,4,6,8)])
  have b: "nonce_of P sm' m' pw' pwlen' s' = Some (Nonce P M pwd')"
    by (rule nonce_of_run [OF assms(1,3,5,7,9)])
  have "length (drop 32 (sha512 P pwd) @ M) = 64"
    using assms(1) heap_load_Some [OF assms(6)] by (simp add: prims_ok_def)
  then show ?thesis
    using a b assms(10)
    by (simp add: Nonce_def NonceDerivation_def prefixHalf_def le_int_ReduceScalar)
qed

theorem nonce_depends_on_prefix_and_digest_witness:
  "prims_ok demo_prims \<and> locals_ok demo_state \<and> locals_ok other_state \<and>
   heap_load (mem demo_state) 96 2 = Some [1, 2] \<and>
   heap_load (mem other_state) 196 3 = Some [1, 2, 0] \<and>
   heap_load (mem demo_state) 64 32 = Some demo_digest \<and>
   heap_load (mem other_state) 164 32 = Some demo_digest \<and>
   allocated (mem demo_state) 0 32 \<and> allocated (mem other_state) 100 32 \<and>
   drop 32 (sha512 demo_prims [1, 2]) = drop 32 (sha512 demo_prims [1, 2, 0]) \<and>
   SecretScalar demo_prims [1, 2] \<noteq> SecretScalar demo_prims [1, 2, 0] \<and>
   nonce_of demo_prims 100 164 196 3 other_state = nonce_of demo_prims 0 64 96 2 demo_state"
proof -
  have pre: "drop 32 (sha512 demo_prims [1, 2]) = drop 32 (sha512 demo_prims [1, 2, 0])"
    using demo_same_prefix by (simp add: prefixHalf_def)
  show ?thesis
    using nonce_depends_on_prefix_and_digest [OF demo_prims_ok demo_locals_ok other_locals_ok
        demo_pw_short other_pw demo_m other_m allocated_64_32 [OF demo_sm]
        allocated_64_32 [OF other_sm] pre]
      demo_prims_ok demo_locals_ok other_locals_ok demo_pw_short other_pw demo_m other_m
      allocated_64_32 [OF demo_sm] allocated_64_32 [OF other_sm] pre demo_other_secret
    by blast
qed

subsection \<open>Totality and determinism\<close>

lemma args_ok_loads:
  assumes "args_ok s sm m pw pwlen"
  obtains pwd M where "heap_load (mem s) pw pwlen = Some pwd"
    and "heap_load (mem s) m 32 = Some M" and "allocated (mem s) sm 64"
  using assms heap_load_allocated [of "mem s" pw pwlen] heap_load_allocated [of "mem s" m 32]
  by (auto simp add: args_ok_def)

lemma locals_ok_after:
  assumes "prims_ok P" and "length M = 32"
  shows "locals_ok
           (s\<lparr>az := KeyDerivation P pwd,
              nonce := Nonce P M pwd @ drop 32 (sha512 P (prefixHalf P pwd @ M)),
              hram := ChallengeScalar P M pwd @
                drop 32 (sha512 P (CommitmentPoint P M pwd @ PublicPoint P pwd @ M)),
              buff := CommitmentPoint P M pwd @ PublicPoint P pwd @ M,
              mem := h\<rparr>)"
proof -
  have "\<And>x. length (sha512 P x) = 64"
    using assms(1) by (simp add: prims_ok_def)
  then show ?thesis
    using assms
    by (simp add: locals_ok_def length_KeyDerivation length_CommitmentPoint length_PublicPoint)
qed

text \<open>
  An access outside an array is a fault of the model, not a silent read: with a
  \<open>buff\<close> of fewer than 96 bytes, or a digest region that is not allocated, the
  routine does not return.
\<close>

lemma sign_faults_on_short_buff:
  assumes "length (buff s) < 96"
  shows "sign P sm m pw pwlen s = None"
proof (cases "key_derivation P pw pwlen s")
  case None
  then show ?thesis by (simp add: sign_def)
next
  case (Some s1)
  then have "buff s1 = buff s"
    by (auto simp add: key_derivation_def split: bind_splits)
  then have "nonce_derivation P m s1 = None"
    using assms
    by (auto simp add: nonce_derivation_def store_def split: bind_splits
        dest: heap_load_Some)
  with Some show ?thesis by (simp add: sign_def)
qed

lemma sign_faults_on_missing_digest:
  assumes "\<not> allocated (mem s) m 32"
  shows "sign P sm m pw pwlen s = None"
proof (cases "key_derivation P pw pwlen s")
  case None
  then show ?thesis by (simp add: sign_def)
next
  case (Some s1)
  then have "mem s1 = mem s"
    by (auto simp add: key_derivation_def split: bind_splits)
  then have "nonce_derivation P m s1 = None"
    using assms by (simp add: nonce_derivation_def heap_load_def)
  with Some show ?thesis by (simp add: sign_def)
qed

lemma demo_commitment_written: "CommitmentPoint demo_prims M pwd \<noteq> replicate 32 255"
proof
  assume "CommitmentPoint demo_prims M pwd = replicate 32 255"
  then have "le_int (CommitmentPoint demo_prims M pwd) = le_int (replicate 32 255)"
    by simp
  moreover have "le_int (replicate 32 255) = 2 ^ 256 - 1"
    by code_simp
  moreover have "le_int (CommitmentPoint demo_prims M pwd) < group_order"
    using group_order_pos
    by (simp add: CommitmentPoint_def demo_prims_def le_int_le_bytes
        mod_less_eq_dividend [THEN le_less_trans])
  ultimately show False
    by (simp add: group_order_def)
qed

text \<open>
  Claim C9. Under its preconditions (a digest of exactly 32 bytes, a password of any
  length, the empty one included, and 64 bytes at \<open>sm\<close>) the routine completes and
  produces a 64-byte signature: with \<open>pwd\<close> the password bytes and \<open>M\<close> the digest
  bytes it reads, the 64 bytes at \<open>sm\<close> after the call are the encoded commitment
  point followed by the response scalar, and the local arrays hold the clamped key
  material, the reduced nonce, the reduced challenge and the 96 bytes
  commitment \<open>\<parallel>\<close> public point \<open>\<parallel>\<close> digest. Every access to the 64-byte and 96-byte
  local arrays, at the offsets \<open>buff + 32\<close> and \<open>buff + 64\<close> and over the 64-byte and
  96-byte hash spans, is in bounds, since an access out of bounds makes the model return
  \<open>None\<close>.
\<close>

theorem sign_total:
  assumes "prims_ok P" and "locals_ok s" and "args_ok s sm m pw pwlen"
  shows "\<exists>s' pwd M sig.
           heap_load (mem s) pw pwlen = Some pwd \<and> heap_load (mem s) m 32 = Some M \<and>
           sign P sm m pw pwlen s = Some s' \<and> locals_ok s' \<and>
           heap_load (mem s') sm 64 = Some sig \<and> length sig = 64 \<and>
           sig = ge_p3_tobytes P (ge_scalarmult_base P (Nonce P M pwd)) @
                 MultiplyAdd (ChallengeScalar P M pwd) (SecretScalar P pwd) (Nonce P M pwd) \<and>
           sig = Sign P M pwd \<and>
           az s' = KeyDerivation P pwd \<and>
           take 32 (nonce s') = Nonce P M pwd \<and>
           take 32 (hram s') = ChallengeScalar P M pwd \<and>
           buff s' = CommitmentPoint P M pwd @ PublicPoint P pwd @ M \<and>
           mem s' = heap_write (mem s) sm sig"
proof -
  from assms(3) obtain pwd M where pw: "heap_load (mem s) pw pwlen = Some pwd"
    and m: "heap_load (mem s) m 32 = Some M" and sm: "allocated (mem s) sm 64"
    by (rule args_ok_loads)
  define s' where "s' = s\<lparr>az := KeyDerivation P pwd,
      nonce := Nonce P M pwd @ drop 32 (sha512 P (prefixHalf P pwd @ M)),
      hram := ChallengeScalar P M pwd @
        drop 32 (sha512 P (CommitmentPoint P M pwd @ PublicPoint P pwd @ M)),
      buff := CommitmentPoint P M pwd @ PublicPoint P pwd @ M,
      mem := heap_write (mem s) sm (Sign P M pwd)\<rparr>"
  have run: "sign P sm m pw pwlen s = Some s'"
    unfolding s'_def by (rule sign_run [OF assms(1,2) pw m sm])
  have lenM: "length M = 32"
    using heap_load_Some [OF m] by simp
  have ok: "locals_ok s'"
    unfolding s'_def by (rule locals_ok_after [OF assms(1) lenM])
  have len: "length (Sign P M pwd) = 64"
    by (rule length_Sign [OF assms(1)])
  have out: "heap_load (mem s') sm 64 = Some (Sign P M pwd)"
    using heap_load_heap_write_same [of "mem s" sm "Sign P M pwd"]
    by (simp add: s'_def len)
  have parts: "Sign P M pwd =
      ge_p3_tobytes P (ge_scalarmult_base P (Nonce P M pwd)) @
      MultiplyAdd (ChallengeScalar P M pwd) (SecretScalar P pwd) (Nonce P M pwd)"
    by (simp add: Sign_def CommitmentPoint_def ResponseScalar_def)
  have locals: "az s' = KeyDerivation P pwd" "take 32 (nonce s') = Nonce P M pwd"
    "take 32 (hram s') = ChallengeScalar P M pwd"
    "buff s' = CommitmentPoint P M pwd @ PublicPoint P pwd @ M"
    "mem s' = heap_write (mem s) sm (Sign P M pwd)"
    by (simp_all add: s'_def)
  from pw m run ok out len parts locals show ?thesis
    by blast
qed

theorem sign_total_witness:
  "prims_ok demo_prims \<and> locals_ok demo_state \<and> args_ok demo_state 0 64 96 0 \<and>
   (\<exists>s'. sign demo_prims 0 64 96 0 demo_state = Some s' \<and> locals_ok s' \<and>
      heap_load (mem s') 0 64 = Some (Sign demo_prims demo_digest []) \<and>
      length (Sign demo_prims demo_digest []) = 64 \<and>
      take 32 (Sign demo_prims demo_digest []) \<noteq> replicate 32 255 \<and>
      az s' = KeyDerivation demo_prims [])"
proof -
  from sign_total [OF demo_prims_ok demo_locals_ok demo_args_empty_ok]
  obtain s' pwd M sig where pw: "heap_load (mem demo_state) 96 0 = Some pwd"
    and m: "heap_load (mem demo_state) 64 32 = Some M"
    and run: "sign demo_prims 0 64 96 0 demo_state = Some s'" and ok: "locals_ok s'"
    and out0: "heap_load (mem s') 0 64 = Some sig"
    and len0: "length sig = 64"
    and sig: "sig = Sign demo_prims M pwd"
    and key: "az s' = KeyDerivation demo_prims pwd"
    by blast
  have out: "heap_load (mem s') 0 64 = Some (Sign demo_prims M pwd)"
    and len: "length (Sign demo_prims M pwd) = 64"
    using out0 len0 by (simp_all add: sig)
  have pwd: "pwd = []" and M: "M = demo_digest"
    using pw m by (simp_all add: demo_pw_empty demo_m)
  have "take 32 (Sign demo_prims demo_digest []) \<noteq> replicate 32 255"
    using demo_commitment_written [of demo_digest "[]"]
    by (simp add: take_32_Sign [OF demo_prims_ok])
  then show ?thesis
    using run ok out len key demo_prims_ok demo_locals_ok demo_args_empty_ok
    unfolding pwd M by blast
qed

text \<open>
  Claim C6. The routine is deterministic and has no hidden state: two invocations that
  read byte-identical digests and byte-identical passwords write byte-identical 64-byte
  outputs, wherever the arguments lie in memory and whatever the local arrays and the
  output region held before.
\<close>

theorem sign_deterministic:
  assumes "prims_ok P" and "locals_ok s" and "locals_ok s'"
    and "args_ok s sm m pw pwlen" and "args_ok s' sm' m' pw' pwlen"
    and "heap_load (mem s') m' 32 = heap_load (mem s) m 32"
    and "heap_load (mem s') pw' pwlen = heap_load (mem s) pw pwlen"
  shows "signature_of P sm' m' pw' pwlen s' = signature_of P sm m pw pwlen s \<and>
         (\<exists>sig. signature_of P sm m pw pwlen s = Some sig \<and> length sig = 64)"
proof -
  from assms(4) obtain pwd M where pw: "heap_load (mem s) pw pwlen = Some pwd"
    and m: "heap_load (mem s) m 32 = Some M" and sm: "allocated (mem s) sm 64"
    by (rule args_ok_loads)
  have pw': "heap_load (mem s') pw' pwlen = Some pwd"
    and m': "heap_load (mem s') m' 32 = Some M"
    using assms(6,7) pw m by simp_all
  have sm': "allocated (mem s') sm' 64"
    using assms(5) by (simp add: args_ok_def)
  have "signature_of P sm m pw pwlen s = Some (Sign P M pwd)"
    by (rule signature_of_run [OF assms(1,2) pw m sm])
  moreover have "signature_of P sm' m' pw' pwlen s' = Some (Sign P M pwd)"
    by (rule signature_of_run [OF assms(1,3) pw' m' sm'])
  ultimately show ?thesis
    by (simp add: length_Sign [OF assms(1)])
qed

theorem sign_deterministic_witness:
  "prims_ok demo_prims \<and> locals_ok demo_state \<and> locals_ok other_state \<and>
   args_ok demo_state 0 64 96 3 \<and> args_ok other_state 100 164 196 3 \<and>
   heap_load (mem other_state) 164 32 = heap_load (mem demo_state) 64 32 \<and>
   heap_load (mem other_state) 196 3 = heap_load (mem demo_state) 96 3 \<and>
   signature_of demo_prims 100 164 196 3 other_state =
     signature_of demo_prims 0 64 96 3 demo_state"
proof -
  have m: "heap_load (mem other_state) 164 32 = heap_load (mem demo_state) 64 32"
    by (simp add: other_m demo_m)
  have pw: "heap_load (mem other_state) 196 3 = heap_load (mem demo_state) 96 3"
    by (simp add: other_pw demo_pw)
  show ?thesis
    using sign_deterministic [OF demo_prims_ok demo_locals_ok other_locals_ok demo_args_ok
        other_args_ok m pw]
      demo_prims_ok demo_locals_ok other_locals_ok demo_args_ok other_args_ok m pw
    by blast
qed

subsection \<open>The operands of the multiply-add\<close>

lemma group_order_lt_254: "group_order < 2 ^ 254"
  by (simp add: group_order_def)

lemma le_int_32_split:
  assumes "length a = 32"
  shows "le_int a = le_int (take 31 a) + 256 ^ 31 * unat (a ! 31)"
proof -
  have "a = take 31 a @ [a ! 31]"
    using assms take_Suc_conv_app_nth [of 31 a] by simp
  then have "le_int a = le_int (take 31 a @ [a ! 31])"
    by simp
  also have "\<dots> = le_int (take 31 a) + 256 ^ 31 * unat (a ! 31)"
    using assms by (simp add: le_int_append)
  finally show ?thesis .
qed

lemma secret_scalar_range:
  assumes "prims_ok P"
  shows "2 ^ 254 \<le> le_int (SecretScalar P pwd)" and "le_int (SecretScalar P pwd) < 2 ^ 255"
proof -
  let ?a = "SecretScalar P pwd"
  have len: "length (sha512 P pwd) = 64"
    using assms by (simp add: prims_ok_def)
  then have la: "length ?a = 32"
    by (simp add: SecretScalar_def KeyDerivation_def)
  have top: "?a ! 31 = sha512 P pwd ! 31 AND 63 OR 64"
    using len by (simp add: SecretScalar_def KeyDerivation_def clamp_nth)
  have low: "le_int (take 31 ?a) < 256 ^ 31"
    using le_int_bound [of "take 31 ?a"] la by simp
  have split: "le_int ?a = le_int (take 31 ?a) + 256 ^ 31 * unat (?a ! 31)"
    by (rule le_int_32_split [OF la])
  have "64 \<le> unat (?a ! 31)" and hi: "unat (?a ! 31) < 128"
    using unat_clamp31_range [of "sha512 P pwd ! 31"] by (simp_all add: top)
  then have "256 ^ 31 * 64 \<le> (256 ^ 31 :: nat) * unat (?a ! 31)"
    by simp
  then show "2 ^ 254 \<le> le_int ?a"
    using split by simp
  have "(256 ^ 31 :: nat) * unat (?a ! 31) \<le> 256 ^ 31 * 127"
    using hi by simp
  then show "le_int ?a < 2 ^ 255"
    using split low by simp
qed

lemma le_int_Nonce_lt: "le_int (Nonce P M pwd) < group_order"
  using group_order_pos by (simp add: le_int_Nonce)

lemma le_int_ChallengeScalar_lt: "le_int (ChallengeScalar P M pwd) < group_order"
  using group_order_pos by (simp add: le_int_ChallengeScalar)

text \<open>
  Claim C5, as stated, fails: the secret scalar that the multiply-add reads is the
  clamped one, with bit 254 set, and is not below \<open>L\<close>.
\<close>

theorem operands_canonical_counterexample:
  "muladd_operands demo_prims 0 64 96 3 demo_state \<noteq> None \<and>
   \<not> operands_canonical demo_prims 0 64 96 3 demo_state"
proof -
  note ops = muladd_operands_run [OF demo_prims_ok demo_locals_ok demo_pw demo_m
      allocated_64_32 [OF demo_sm]]
  have "\<not> le_int (SecretScalar demo_prims [1, 2, 0]) < group_order"
    using secret_scalar_range(1) [OF demo_prims_ok, of "[1, 2, 0]"] group_order_lt_254
    by simp
  then show ?thesis
    by (simp add: operands_canonical_def ops)
qed

text \<open>
  Claim C5, amended. In every invocation the challenge scalar and the nonce that the
  multiply-add reads are canonical, strictly below \<open>L\<close>. The secret scalar is read as
  clamped, not reduced: it lies between \<open>2^254\<close> and \<open>2^255\<close>, above \<open>L\<close>. The
  multiply-add reduces its result, so the response scalar is below \<open>L\<close>.
\<close>

theorem operands_of_multiply_add:
  assumes "prims_ok P" and "locals_ok s" and "heap_load (mem s) pw pwlen = Some pwd"
    and "heap_load (mem s) m 32 = Some M" and "allocated (mem s) sm 64"
  shows "\<exists>c a r sig. muladd_operands P sm m pw pwlen s = Some (c, a, r) \<and>
           c = le_int (sha512 P (CommitmentPoint P M pwd @ PublicPoint P pwd @ M)) mod group_order \<and>
           r = le_int (sha512 P (prefixHalf P pwd @ M)) mod group_order \<and>
           a = le_int (SecretScalar P pwd) \<and>
           c < group_order \<and> r < group_order \<and>
           2 ^ 254 \<le> a \<and> a < 2 ^ 255 \<and> group_order < a \<and>
           signature_of P sm m pw pwlen s = Some sig \<and>
           le_int (drop 32 sig) = (c * a + r) mod group_order \<and>
           le_int (drop 32 sig) < group_order"
proof -
  let ?c = "le_int (ChallengeScalar P M pwd)"
  let ?a = "le_int (SecretScalar P pwd)"
  let ?r = "le_int (Nonce P M pwd)"
  have ops: "muladd_operands P sm m pw pwlen s = Some (?c, ?a, ?r)"
    by (rule muladd_operands_run [OF assms(1-4) allocated_64_32 [OF assms(5)]])
  have sig: "signature_of P sm m pw pwlen s = Some (Sign P M pwd)"
    by (rule signature_of_run [OF assms])
  have resp: "le_int (drop 32 (Sign P M pwd)) = (?c * ?a + ?r) mod group_order"
    by (simp add: drop_32_Sign [OF assms(1)] le_int_ResponseScalar)
  have "(?c * ?a + ?r) mod group_order < group_order"
    using group_order_pos by simp
  moreover have "group_order < ?a"
    using secret_scalar_range(1) [OF assms(1), of pwd] group_order_lt_254 by simp
  ultimately show ?thesis
    using ops sig resp secret_scalar_range [OF assms(1), of pwd]
      le_int_Nonce_lt [of P M pwd] le_int_ChallengeScalar_lt [of P M pwd]
    by (simp add: le_int_Nonce le_int_ChallengeScalar)
qed

theorem operands_of_multiply_add_witness:
  "prims_ok demo_prims \<and> locals_ok demo_state \<and>
   heap_load (mem demo_state) 96 3 = Some [1, 2, 0] \<and>
   heap_load (mem demo_state) 64 32 = Some demo_digest \<and>
   allocated (mem demo_state) 0 64 \<and>
   (\<exists>c a r. muladd_operands demo_prims 0 64 96 3 demo_state = Some (c, a, r) \<and>
      c < group_order \<and> r < group_order \<and> 2 ^ 254 \<le> a \<and> a < 2 ^ 255 \<and> group_order < a)"
  using operands_of_multiply_add [OF demo_prims_ok demo_locals_ok demo_pw demo_m demo_sm]
    demo_prims_ok demo_locals_ok demo_pw demo_m demo_sm
  by blast

subsection \<open>What the routine writes\<close>

lemma heap_load_heap_write_prefix:
  assumes "n \<le> length bs"
  shows "heap_load (heap_write h p bs) p n = Some (take n bs)"
proof -
  have "allocated (heap_write h p bs) p n"
    using assms by (simp add: allocated_iff heap_write_def)
  moreover have "map (\<lambda>a. the (heap_write h p bs a)) [p..<p + n] = take n bs"
    using assms by (intro nth_equalityI) (simp_all add: heap_write_def)
  ultimately show ?thesis by (simp add: heap_load_def)
qed

lemma heap_load_heap_write_separate:
  assumes "separate q n p (length bs)"
  shows "heap_load (heap_write h p bs) q n = heap_load h q n"
proof -
  have eq: "\<And>a. q \<le> a \<Longrightarrow> a < q + n \<Longrightarrow> heap_write h p bs a = h a"
    using assms by (auto simp add: heap_write_def separate_def)
  then have "allocated (heap_write h p bs) q n = allocated h q n"
    by (simp add: allocated_iff)
  moreover have "map (\<lambda>a. the (heap_write h p bs a)) [q..<q + n] = map (\<lambda>a. the (h a)) [q..<q + n]"
    using eq by simp
  ultimately show ?thesis by (simp add: heap_load_def)
qed

text \<open>
  When the digest pointer is the output pointer, the digest is overwritten by the
  commitment point.
\<close>

lemma aliased_digest_overwritten:
  assumes "prims_ok P" and "locals_ok s" and "heap_load (mem s) pw pwlen = Some pwd"
    and "heap_load (mem s) sm 32 = Some M" and "allocated (mem s) sm 64"
    and "sign P sm sm pw pwlen s = Some s'"
  shows "heap_load (mem s') sm 32 = Some (CommitmentPoint P M pwd)"
proof -
  have "mem s' = heap_write (mem s) sm (Sign P M pwd)"
    using sign_run [OF assms(1-5)] assms(6) by auto
  then show ?thesis
    using heap_load_heap_write_prefix [of 32 "Sign P M pwd" "mem s" sm]
    by (simp add: length_Sign [OF assms(1)] take_32_Sign [OF assms(1)])
qed

text \<open>
  Claim C10, as stated, fails: called with \<open>m = sm\<close>, the routine reads the digest at
  line 24 and overwrites it at line 34.
\<close>

theorem inputs_unchanged_counterexample:
  "sign demo_prims 0 0 96 3 demo_state \<noteq> None \<and>
   \<not> inputs_unchanged demo_prims 0 0 96 3 demo_state"
proof -
  obtain s' where s': "sign demo_prims 0 0 96 3 demo_state = Some s'"
    using sign_run [OF demo_prims_ok demo_locals_ok demo_pw demo_aliased_digest demo_sm]
    by blast
  have "heap_load (mem s') 0 32 =
      Some (CommitmentPoint demo_prims (replicate 32 255) [1, 2, 0])"
    by (rule aliased_digest_overwritten [OF demo_prims_ok demo_locals_ok demo_pw
          demo_aliased_digest demo_sm s'])
  then have "heap_load (mem s') 0 32 \<noteq> heap_load (mem demo_state) 0 32"
    using demo_aliased_commitment [of "[1, 2, 0]"] by (simp add: demo_aliased_digest)
  then show ?thesis
    by (simp add: inputs_unchanged_def s')
qed

text \<open>
  Claim C10, amended. The routine writes, in the caller's memory, only the 64 bytes at
  \<open>sm\<close>: every address outside \<open>sm[0..63]\<close> holds after the call what it held
  before. So the digest \<open>m\<close> and the password \<open>pw\<close> are unchanged whenever their
  regions do not overlap \<open>sm[0..63]\<close>.
\<close>

theorem sign_frame:
  assumes "prims_ok P" and "locals_ok s" and "args_ok s sm m pw pwlen"
  shows "\<exists>s'. sign P sm m pw pwlen s = Some s' \<and>
           (\<forall>a. a < sm \<or> sm + 64 \<le> a \<longrightarrow> mem s' a = mem s a) \<and>
           (separate m 32 sm 64 \<longrightarrow> heap_load (mem s') m 32 = heap_load (mem s) m 32) \<and>
           (separate pw pwlen sm 64 \<longrightarrow>
              heap_load (mem s') pw pwlen = heap_load (mem s) pw pwlen) \<and>
           (separate m 32 sm 64 \<and> separate pw pwlen sm 64 \<longrightarrow>
              inputs_unchanged P sm m pw pwlen s)"
proof -
  from assms(3) obtain pwd M where pw: "heap_load (mem s) pw pwlen = Some pwd"
    and m: "heap_load (mem s) m 32 = Some M" and sm: "allocated (mem s) sm 64"
    by (rule args_ok_loads)
  define s' where "s' = s\<lparr>az := KeyDerivation P pwd,
      nonce := Nonce P M pwd @ drop 32 (sha512 P (prefixHalf P pwd @ M)),
      hram := ChallengeScalar P M pwd @
        drop 32 (sha512 P (CommitmentPoint P M pwd @ PublicPoint P pwd @ M)),
      buff := CommitmentPoint P M pwd @ PublicPoint P pwd @ M,
      mem := heap_write (mem s) sm (Sign P M pwd)\<rparr>"
  have run: "sign P sm m pw pwlen s = Some s'"
    unfolding s'_def by (rule sign_run [OF assms(1,2) pw m sm])
  have mem: "mem s' = heap_write (mem s) sm (Sign P M pwd)"
    by (simp add: s'_def)
  have len: "length (Sign P M pwd) = 64"
    by (rule length_Sign [OF assms(1)])
  have outside: "\<forall>a. a < sm \<or> sm + 64 \<le> a \<longrightarrow> mem s' a = mem s a"
    using heap_write_outside [of _ sm "Sign P M pwd" "mem s"] by (simp add: mem len)
  have keep_m: "separate m 32 sm 64 \<longrightarrow> heap_load (mem s') m 32 = heap_load (mem s) m 32"
    using heap_load_heap_write_separate [of m 32 sm "Sign P M pwd" "mem s"]
    by (simp add: mem len)
  have keep_pw: "separate pw pwlen sm 64 \<longrightarrow>
      heap_load (mem s') pw pwlen = heap_load (mem s) pw pwlen"
    using heap_load_heap_write_separate [of pw pwlen sm "Sign P M pwd" "mem s"]
    by (simp add: mem len)
  have "separate m 32 sm 64 \<and> separate pw pwlen sm 64 \<longrightarrow> inputs_unchanged P sm m pw pwlen s"
    using keep_m keep_pw by (simp add: inputs_unchanged_def run)
  with run outside keep_m keep_pw show ?thesis
    by blast
qed

theorem sign_frame_witness:
  "prims_ok demo_prims \<and> locals_ok demo_state \<and> args_ok demo_state 0 64 96 3 \<and>
   separate 64 32 0 64 \<and> separate 96 3 0 64 \<and>
   inputs_unchanged demo_prims 0 64 96 3 demo_state \<and>
   (\<exists>s'. sign demo_prims 0 64 96 3 demo_state = Some s' \<and> mem s' 64 = mem demo_state 64 \<and>
      heap_load (mem s') 64 32 = heap_load (mem demo_state) 64 32 \<and>
      heap_load (mem s') 96 3 = heap_load (mem demo_state) 96 3)"
proof -
  from sign_frame [OF demo_prims_ok demo_locals_ok demo_args_ok]
  obtain s' where run: "sign demo_prims 0 64 96 3 demo_state = Some s'"
    and out: "\<forall>a. a < 0 \<or> 0 + 64 \<le> a \<longrightarrow> mem s' a = mem demo_state a"
    and m: "separate 64 32 0 64 \<longrightarrow> heap_load (mem s') 64 32 = heap_load (mem demo_state) 64 32"
    and pw: "separate 96 3 0 64 \<longrightarrow> heap_load (mem s') 96 3 = heap_load (mem demo_state) 96 3"
    and both: "separate 64 32 0 64 \<and> separate 96 3 0 64 \<longrightarrow>
           inputs_unchanged demo_prims 0 64 96 3 demo_state"
    by blast
  have "mem s' 64 = mem demo_state 64"
    using out [rule_format, of 64] by simp
  moreover have "heap_load (mem s') 64 32 = heap_load (mem demo_state) 64 32"
    using m demo_separate(1) by (rule mp)
  moreover have "heap_load (mem s') 96 3 = heap_load (mem demo_state) 96 3"
    using pw demo_separate(2) by (rule mp)
  moreover have "inputs_unchanged demo_prims 0 64 96 3 demo_state"
    using both demo_separate by blast
  ultimately show ?thesis
    using run demo_prims_ok demo_locals_ok demo_args_ok demo_separate
    by blast
qed

subsection \<open>The signing equation\<close>

lemma base_mult_secret:
  assumes "prims_ok P" and "curve_ok P G"
  shows "ge_scalarmult_base P (SecretScalar P pwd) = base_mult G (le_int (SecretScalar P pwd))"
proof -
  have "length (SecretScalar P pwd) = 32"
    using assms(1) by (simp add: SecretScalar_def length_KeyDerivation)
  moreover have "le_int (SecretScalar P pwd) < 2 ^ 255"
    by (rule secret_scalar_range(2) [OF assms(1)])
  ultimately show ?thesis
    using assms(2) by (simp add: curve_ok_def)
qed

lemma base_mult_nonce:
  assumes "curve_ok P G"
  shows "ge_scalarmult_base P (Nonce P M pwd) = base_mult G (le_int (Nonce P M pwd))"
proof -
  have "le_int (Nonce P M pwd) < group_order"
    by (rule le_int_Nonce_lt)
  also have "group_order < 2 ^ 255"
    by (simp add: group_order_def)
  finally have "le_int (Nonce P M pwd) < 2 ^ 255" .
  then show ?thesis
    using assms by (simp add: curve_ok_def)
qed

lemma signing_equation_in_group:
  assumes "curve_ok P G"
  shows "base_mult G ((h * a + r) mod group_order) =
           point_add G (base_mult G r) (point_mult G h (base_mult G a))"
proof -
  have "base_mult G ((h * a + r) mod group_order) = base_mult G (r + h * a)"
    using assms by (simp add: curve_ok_def add.commute)
  also have "\<dots> = point_add G (base_mult G r) (base_mult G (h * a))"
    using assms by (simp add: curve_ok_def)
  also have "base_mult G (h * a) = point_mult G h (base_mult G a)"
    using assms by (simp add: curve_ok_def)
  finally show ?thesis .
qed

text \<open>
  Claim C1. For every password and every 32-byte digest \<open>M\<close>, the signature \<open>R \<parallel> s\<close>
  satisfies the verification equation. With \<open>a\<close> the clamped secret scalar, \<open>r\<close> the
  reduced nonce, \<open>A\<close> the encoding of \<open>a\<close> times the basepoint and \<open>h\<close> the hash of
  \<open>R \<parallel> A \<parallel> M\<close> reduced mod \<open>L\<close>: \<open>R\<close> encodes \<open>r\<close> times the basepoint,
  \<open>s = (h\<cdot>a + r) mod L\<close>, so \<open>s\<close> times the basepoint equals \<open>R + h\<cdot>A\<close> in the
  group, and a verifier of this equation that holds \<open>A\<close> as public key accepts.
\<close>

theorem signature_verifies:
  assumes "prims_ok P" and "curve_ok P G" and "locals_ok s"
    and "heap_load (mem s) pw pwlen = Some pwd"
    and "heap_load (mem s) m 32 = Some M" and "allocated (mem s) sm 64"
  shows "\<exists>sig A a r h.
           signature_of P sm m pw pwlen s = Some sig \<and> length sig = 64 \<and>
           a = le_int (SecretScalar P pwd) \<and>
           r = le_int (sha512 P (prefixHalf P pwd @ M)) mod group_order \<and>
           A = ge_p3_tobytes P (base_mult G a) \<and>
           take 32 sig = ge_p3_tobytes P (base_mult G r) \<and>
           h = le_int (sha512 P (take 32 sig @ A @ M)) mod group_order \<and>
           le_int (drop 32 sig) = (h * a + r) mod group_order \<and>
           base_mult G (le_int (drop 32 sig)) =
             point_add G (base_mult G r) (point_mult G h (base_mult G a)) \<and>
           verify P G A M sig"
proof -
  let ?a = "le_int (SecretScalar P pwd)"
  let ?r = "le_int (Nonce P M pwd)"
  let ?h = "le_int (ChallengeScalar P M pwd)"
  let ?sig = "Sign P M pwd"
  have sig: "signature_of P sm m pw pwlen s = Some ?sig"
    by (rule signature_of_run [OF assms(1,3-6)])
  have len: "length ?sig = 64"
    by (rule length_Sign [OF assms(1)])
  have A: "PublicPoint P pwd = ge_p3_tobytes P (base_mult G ?a)"
    by (simp add: PublicPoint_def base_mult_secret [OF assms(1,2)])
  have R: "take 32 ?sig = ge_p3_tobytes P (base_mult G ?r)"
    by (simp add: take_32_Sign [OF assms(1)] CommitmentPoint_def base_mult_nonce [OF assms(2)])
  have S: "le_int (drop 32 ?sig) = (?h * ?a + ?r) mod group_order"
    by (simp add: drop_32_Sign [OF assms(1)] le_int_ResponseScalar)
  have h: "?h = le_int (sha512 P (take 32 ?sig @ PublicPoint P pwd @ M)) mod group_order"
    by (simp add: take_32_Sign [OF assms(1)] le_int_ChallengeScalar)
  have ch: "Challenge P (take 32 ?sig) (PublicPoint P pwd) M = ChallengeScalar P M pwd"
    by (simp add: take_32_Sign [OF assms(1)] ChallengeScalar_def)
  have eq: "base_mult G (le_int (drop 32 ?sig)) =
      point_add G (base_mult G ?r) (point_mult G ?h (base_mult G ?a))"
    unfolding S by (rule signing_equation_in_group [OF assms(2)])
  have canon: "le_int (drop 32 ?sig) < group_order"
    using group_order_pos by (simp add: S)
  have dec: "decode_point G (take 32 ?sig) = Some (base_mult G ?r)"
    "decode_point G (PublicPoint P pwd) = Some (base_mult G ?a)"
    using assms(2) by (simp_all add: R A curve_ok_def)
  have ver: "verify P G (PublicPoint P pwd) M ?sig"
    using len canon eq by (simp add: verify_def dec ch)
  show ?thesis
    using sig len A R S h eq ver
    by (simp add: le_int_Nonce [symmetric])
qed

theorem signature_verifies_witness:
  "prims_ok demo_prims \<and> curve_ok demo_prims demo_group \<and> locals_ok demo_state \<and>
   heap_load (mem demo_state) 96 3 = Some [1, 2, 0] \<and>
   heap_load (mem demo_state) 64 32 = Some demo_digest \<and>
   allocated (mem demo_state) 0 64 \<and>
   (\<exists>sig A. signature_of demo_prims 0 64 96 3 demo_state = Some sig \<and>
      verify demo_prims demo_group A demo_digest sig)"
  using signature_verifies [OF demo_prims_ok demo_curve_ok demo_locals_ok demo_pw demo_m demo_sm]
    demo_prims_ok demo_curve_ok demo_locals_ok demo_pw demo_m demo_sm
  by blast

end
